theory Spec2Isabelle
  imports Complex_Main "HOL-Library.AList"
begin

section \<open>Python values\<close>

text \<open>
  The interview engine is Python code that exchanges JSON with an external text-generation
  service. A Python float is an IEEE-754 binary64 number. A finite float is modelled by
  the rational number it denotes; the two infinities and NaN, which \<open>json.loads\<close>
  accepts, are separate values.
\<close>

datatype pyfloat = Finite rat | PosInf | NegInf | NaN

datatype json =
    JNull
  | JBool bool
  | JInt int
  | JFloat pyfloat
  | JStr string
  | JList "json list"
  | JDict "(string \<times> json) list"

text \<open>
  A dict is an association list in insertion order. \<open>d[k] = v\<close> replaces the value of an
  existing key in place and appends a new key at the end, which is \<open>AList.update\<close>;
  \<open>k in d\<close> and \<open>d.get(k)\<close> read the first entry of the key, which is \<open>map_of\<close>.
\<close>

definition dict_set :: "(string \<times> json) list \<Rightarrow> string \<Rightarrow> json \<Rightarrow> (string \<times> json) list" where
  "dict_set d k v = AList.update k v d"

definition dict_get :: "(string \<times> json) list \<Rightarrow> string \<Rightarrow> json option" where
  "dict_get d k = map_of d k"

text \<open>Exceptions are values: the class of the exception and the text of \<open>str(e)\<close>.\<close>

datatype exn_kind =
  ValueError | TypeError | OverflowError | KeyError | AttributeError | ServiceError | DatabaseError

type_synonym py_exn = "exn_kind \<times> string"

text \<open>
  The external service is called through the OpenAI client and its answer is parsed with
  \<open>json.loads\<close>. Both steps are outside the repository: together they either raise
  (network error, missing content, text that is not JSON), with the message \<open>str(e)\<close>,
  or yield a JSON value.
\<close>

datatype reply = Failure string | Json json

section \<open>binary64 arithmetic\<close>

text \<open>
  Rounding to nearest, ties to even, of a rational to a binary64 number with 53 significant
  bits. The exponent is not bounded here; the callers test for the overflow bound
  \<open>2 ^ 1024\<close> themselves, and no value below the normal range occurs.
\<close>

definition round_half_even :: "rat \<Rightarrow> int" where
  "round_half_even x =
     (let f = \<lfloor>x\<rfloor>; r = x - of_int f
      in if r < 1 / 2 then f else if 1 / 2 < r then f + 1 else if even f then f else f + 1)"

fun bit_length :: "nat \<Rightarrow> nat" where
  "bit_length n = (if n = 0 then 0 else Suc (bit_length (n div 2)))"

declare bit_length.simps [simp del]

definition ilog2 :: "rat \<Rightarrow> int" where
  "ilog2 x = (if 1 \<le> x then int (bit_length (nat \<lfloor>x\<rfloor>)) - 1
              else - int (bit_length (nat (\<lceil>1 / x\<rceil> - 1))))"

definition pow2 :: "int \<Rightarrow> rat" where
  "pow2 e = (if 0 \<le> e then 2 ^ nat e else 1 / 2 ^ nat (- e))"

definition round_double :: "rat \<Rightarrow> rat" where
  "round_double x =
     (if x = 0 then 0
      else let e = ilog2 \<bar>x\<bar>
           in sgn x * of_int (round_half_even (\<bar>x\<bar> * pow2 (52 - e))) * pow2 (e - 52))"

text \<open>\<open>float(n)\<close> for a Python int, as in the conversion of the int operand of \<open>n * 0.4\<close>.\<close>

definition float_of_int :: "int \<Rightarrow> py_exn + rat" where
  "float_of_int n =
     (let x = round_double (of_int n)
      in if 2 ^ 1024 \<le> \<bar>x\<bar> then Inl (OverflowError, ''int too large to convert to float'')
         else Inr x)"

text \<open>\<open>n * c\<close> for an int \<open>n\<close> and a float constant \<open>c\<close>.\<close>

definition int_times_float :: "int \<Rightarrow> rat \<Rightarrow> py_exn + rat" where
  "int_times_float n c =
     (case float_of_int n of Inl e \<Rightarrow> Inl e | Inr x \<Rightarrow> Inr (round_double (x * c)))"

text \<open>\<open>int(x)\<close> for a finite float truncates towards zero.\<close>

definition py_int :: "rat \<Rightarrow> int" where
  "py_int x = (if 0 \<le> x then \<lfloor>x\<rfloor> else \<lceil>x\<rceil>)"

text \<open>The binary64 values of the literals \<open>0.4\<close>, \<open>0.3\<close> and \<open>0.2\<close>.\<close>

definition lit_0_4 :: rat where
  "lit_0_4 = round_double (4 / 10)"

definition lit_0_3 :: rat where
  "lit_0_3 = round_double (3 / 10)"

definition lit_0_2 :: rat where
  "lit_0_2 = round_double (2 / 10)"

section \<open>Question Planner\<close>

text \<open>
  \<open>generate_questions\<close>, lines 47 to 51 of the new engine and 51 to 55 of the engine for
  SAP modules: the four quotas \<open>(technical, scenario, behavioral, problem_solving)\<close>.
  Both engines compute them with the same expressions.
\<close>

definition quota_counts :: "int \<Rightarrow> py_exn + (int \<times> int \<times> int \<times> int)" where
  "quota_counts num_questions =
     (case int_times_float num_questions lit_0_4 of
        Inl e \<Rightarrow> Inl e
      | Inr x4 \<Rightarrow>
          (case int_times_float num_questions lit_0_3 of
             Inl e \<Rightarrow> Inl e
           | Inr x3 \<Rightarrow>
               (case int_times_float num_questions lit_0_2 of
                  Inl e \<Rightarrow> Inl e
                | Inr x2 \<Rightarrow>
                    (let technical_count = py_int x4;
                         scenario_count = py_int x3;
                         behavioral_count = py_int x2;
                         problem_solving_count =
                           num_questions - technical_count - scenario_count - behavioral_count
                     in Inr (technical_count, scenario_count, behavioral_count,
                             problem_solving_count)))))"


text \<open>
  The per-category quotas go into the prompt; the generator is called once and its answer
  is parsed. In the new engine every exception of the body, the overflow of the quota
  computation included, is caught by \<open>except Exception\<close> and answered with the
  empty structure.
\<close>

record question_request =
  qr_job_title :: string
  qr_job_description :: string
  qr_resume_text :: string
  qr_quotas :: "int \<times> int \<times> int \<times> int"

definition categories :: "string list" where
  "categories = [''technical'', ''scenario'', ''behavioral'', ''problem_solving'']"

definition empty_questions :: "(string \<times> json) list" where
  "empty_questions =
     [(''technical'', JList []), (''scenario'', JList []),
      (''behavioral'', JList []), (''problem_solving'', JList [])]"

text \<open>\<open>if category not in result: result[category] = []\<close>\<close>

definition ensure_category :: "(string \<times> json) list \<Rightarrow> string \<Rightarrow> (string \<times> json) list" where
  "ensure_category result category =
     (if dict_get result category = None then dict_set result category (JList []) else result)"

text \<open>\<open>len(v)\<close>: defined on strings, lists and dicts, a \<open>TypeError\<close> on every other value.\<close>

fun py_len :: "json \<Rightarrow> py_exn + nat" where
  "py_len (JStr s) = Inr (length s)"
| "py_len (JList xs) = Inr (length xs)"
| "py_len (JDict d) = Inr (length d)"
| "py_len v = Inl (TypeError, ''object has no len()'')"

text \<open>\<open>sum(len(result[cat]) for cat in categories)\<close>\<close>

fun total_generated :: "(string \<times> json) list \<Rightarrow> string list \<Rightarrow> py_exn + nat" where
  "total_generated result [] = Inr 0"
| "total_generated result (cat # cats) =
     (case dict_get result cat of
        None \<Rightarrow> Inl (KeyError, cat)
      | Some v \<Rightarrow>
          (case py_len v of
             Inl e \<Rightarrow> Inl e
           | Inr n \<Rightarrow>
               (case total_generated result cats of
                  Inl e \<Rightarrow> Inl e
                | Inr m \<Rightarrow> Inr (n + m))))"

text \<open>
  The body of the \<open>try\<close> block of \<open>generate_questions\<close> in the new engine, after the
  call. A reply that is not a JSON object ends in a \<open>TypeError\<close> on every path: the
  membership test raises on numbers, booleans and \<open>null\<close>; the assignment
  \<open>result[category] = []\<close> raises on a list or a string that lacks a category; and a
  list or string that holds all four raises at \<open>result[cat]\<close> in the sum.
\<close>

definition check_questions :: "json \<Rightarrow> py_exn + (string \<times> json) list" where
  "check_questions parsed =
     (case parsed of
        JDict d \<Rightarrow>
          (let result = foldl ensure_category d categories
           in case total_generated result categories of
                Inl e \<Rightarrow> Inl e
              | Inr total_count \<Rightarrow> Inr result)
      | _ \<Rightarrow> Inl (TypeError, ''result is not a mapping''))"

definition generate_questions ::
  "(question_request \<Rightarrow> reply) \<Rightarrow> string \<Rightarrow> string \<Rightarrow> string \<Rightarrow> int \<Rightarrow> (string \<times> json) list" where
  "generate_questions generator job_title job_description resume_text num_questions =
     (case quota_counts num_questions of
        Inl e \<Rightarrow> empty_questions
      | Inr quotas \<Rightarrow>
          (case generator \<lparr>qr_job_title = job_title, qr_job_description = job_description,
                           qr_resume_text = resume_text, qr_quotas = quotas\<rparr> of
             Failure msg \<Rightarrow> empty_questions
           | Json parsed \<Rightarrow>
               (case check_questions parsed of
                  Inl e \<Rightarrow> empty_questions
                | Inr result \<Rightarrow> result)))"

text \<open>
  \<open>generate_questions\<close> of the engine for SAP modules (\<open>interview_engine.py\<close>). Its two
  handlers log the exception and re-raise it, and the parsed answer is returned as it
  is. The argument \<open>sap_module\<close> takes the place of the job title.
\<close>

definition generate_questions_sap ::
  "(question_request \<Rightarrow> reply) \<Rightarrow> string \<Rightarrow> string \<Rightarrow> string \<Rightarrow> int \<Rightarrow> py_exn + json" where
  "generate_questions_sap generator sap_module job_description resume_text num_questions =
     (case quota_counts num_questions of
        Inl e \<Rightarrow> Inl e
      | Inr quotas \<Rightarrow>
          (case generator \<lparr>qr_job_title = sap_module, qr_job_description = job_description,
                           qr_resume_text = resume_text, qr_quotas = quotas\<rparr> of
             Failure msg \<Rightarrow> Inl (ServiceError, msg)
           | Json parsed \<Rightarrow> Inr parsed))"

section \<open>Answer Scorer\<close>

record grading_request =
  gr_question :: string
  gr_question_type :: string
  gr_answer :: string
  gr_job_title :: string
  gr_job_description :: string

definition score_fields :: "string list" where
  "score_fields =
     [''score'', ''technical_accuracy'', ''clarity_of_communication'',
      ''relevance'', ''demonstrated_expertise'']"

definition required_fields :: "string list" where
  "required_fields = score_fields @ [''strengths'', ''weaknesses'', ''feedback'']"

text \<open>Lines 216 to 222: the value stored for a required field that is missing.\<close>

definition default_value :: "string \<Rightarrow> json" where
  "default_value field =
     (if field \<in> set [''strengths'', ''weaknesses''] then JList []
      else if field = ''feedback'' then JStr ''No detailed feedback provided.''
      else JInt 5)"

definition ensure_field :: "(string \<times> json) list \<Rightarrow> string \<Rightarrow> (string \<times> json) list" where
  "ensure_field result field =
     (if dict_get result field = None then dict_set result field (default_value field)
      else result)"

text \<open>
  \<open>float(v)\<close>. An int converts unless it is too large, a bool is an int, a string goes
  through Python's parser of float literals, which is outside the repository and is the
  parameter \<open>parse\<close> (\<open>None\<close> where it raises \<open>ValueError\<close>); \<open>None\<close>, lists and dicts
  raise \<open>TypeError\<close>.
\<close>

fun py_float :: "(string \<Rightarrow> pyfloat option) \<Rightarrow> json \<Rightarrow> py_exn + pyfloat" where
  "py_float parse (JInt n) =
     (case float_of_int n of Inl e \<Rightarrow> Inl e | Inr x \<Rightarrow> Inr (Finite x))"
| "py_float parse (JFloat x) = Inr x"
| "py_float parse (JBool b) = Inr (Finite (if b then 1 else 0))"
| "py_float parse (JStr s) =
     (case parse s of
        None \<Rightarrow> Inl (ValueError, ''could not convert string to float'')
      | Some x \<Rightarrow> Inr x)"
| "py_float parse v = Inl (TypeError, ''float() argument must be a string or a real number'')"

text \<open>
  \<open>min\<close>, \<open>max\<close> and \<open>round\<close> work on Python numbers, ints or floats. \<open>min(10, x)\<close> keeps
  the int \<open>10\<close> unless \<open>x < 10\<close>, \<open>max(0, v)\<close> keeps the int \<open>0\<close> unless \<open>v > 0\<close>, and
  every comparison with NaN is false.
\<close>

datatype pynum = PInt int | PFloat pyfloat

fun float_less :: "pyfloat \<Rightarrow> rat \<Rightarrow> bool" where
  "float_less (Finite q) c = (q < c)"
| "float_less NegInf c = True"
| "float_less PosInf c = False"
| "float_less NaN c = False"

fun float_greater :: "pyfloat \<Rightarrow> rat \<Rightarrow> bool" where
  "float_greater (Finite q) c = (c < q)"
| "float_greater PosInf c = True"
| "float_greater NegInf c = False"
| "float_greater NaN c = False"

definition min_10 :: "pyfloat \<Rightarrow> pynum" where
  "min_10 x = (if float_less x 10 then PFloat x else PInt 10)"

fun max_0 :: "pynum \<Rightarrow> pynum" where
  "max_0 (PInt n) = (if 0 < n then PInt n else PInt 0)"
| "max_0 (PFloat x) = (if float_greater x 0 then PFloat x else PInt 0)"

text \<open>
  \<open>round(v, 1)\<close>: an int is returned as it is; a finite float goes to the nearest
  multiple of one tenth, ties to the even one. The result is modelled by that tenth
  itself, where Python returns the binary64 number closest to it.
\<close>

definition round_1 :: "rat \<Rightarrow> rat" where
  "round_1 q = of_int (round_half_even (q * 10)) / 10"

fun py_round_1 :: "pynum \<Rightarrow> pynum" where
  "py_round_1 (PInt n) = PInt n"
| "py_round_1 (PFloat (Finite q)) = PFloat (Finite (round_1 q))"
| "py_round_1 (PFloat x) = PFloat x"

fun json_of_num :: "pynum \<Rightarrow> json" where
  "json_of_num (PInt n) = JInt n"
| "json_of_num (PFloat x) = JFloat x"

text \<open>
  Lines 227 to 232, the inner \<open>try\<close> for one score field: \<open>ValueError\<close> and
  \<open>TypeError\<close> are caught there and give \<open>5.0\<close>; any other exception leaves the loop.
\<close>

definition clamp_score :: "(string \<Rightarrow> pyfloat option) \<Rightarrow> json \<Rightarrow> py_exn + json" where
  "clamp_score parse v =
     (case py_float parse v of
        Inl e \<Rightarrow>
          (if fst e = ValueError \<or> fst e = TypeError then Inr (JFloat (Finite 5)) else Inl e)
      | Inr x \<Rightarrow> Inr (json_of_num (py_round_1 (max_0 (min_10 x)))))"

fun clamp_scores ::
  "(string \<Rightarrow> pyfloat option) \<Rightarrow> (string \<times> json) list \<Rightarrow> string list \<Rightarrow> py_exn + (string \<times> json) list" where
  "clamp_scores parse result [] = Inr result"
| "clamp_scores parse result (score_field # rest) =
     (case dict_get result score_field of
        None \<Rightarrow> Inl (KeyError, score_field)
      | Some v \<Rightarrow>
          (case clamp_score parse v of
             Inl e \<Rightarrow> Inl e
           | Inr v' \<Rightarrow> clamp_scores parse (dict_set result score_field v') rest))"

text \<open>Lines 240 to 249: the evaluation returned by the outer handler.\<close>

definition fallback_evaluation :: "string \<Rightarrow> (string \<times> json) list" where
  "fallback_evaluation msg =
     [(''score'', JFloat (Finite 5)),
      (''technical_accuracy'', JFloat (Finite 5)),
      (''clarity_of_communication'', JFloat (Finite 5)),
      (''relevance'', JFloat (Finite 5)),
      (''demonstrated_expertise'', JFloat (Finite 5)),
      (''strengths'', JList [JStr ''Unable to properly evaluate response'']),
      (''weaknesses'', JList [JStr ''System could not analyze this response'']),
      (''feedback'', JStr (''Error during evaluation: '' @ msg))]"

text \<open>
  The validation of lines 210 to 232 on the parsed reply. As in \<open>generate_questions\<close>,
  a reply that is not a JSON object raises \<open>TypeError\<close> on every path, at the latest in
  the handler of the inner \<open>try\<close>, whose assignment \<open>result[score_field] = 5.0\<close> is not
  protected.
\<close>

definition validate_evaluation ::
  "(string \<Rightarrow> pyfloat option) \<Rightarrow> json \<Rightarrow> py_exn + (string \<times> json) list" where
  "validate_evaluation parse parsed =
     (case parsed of
        JDict d \<Rightarrow> clamp_scores parse (foldl ensure_field d required_fields) score_fields
      | _ \<Rightarrow> Inl (TypeError, ''result is not a mapping''))"

definition evaluate_answer ::
  "(string \<Rightarrow> pyfloat option) \<Rightarrow> (grading_request \<Rightarrow> reply) \<Rightarrow>
   string \<Rightarrow> string \<Rightarrow> string \<Rightarrow> string \<Rightarrow> string \<Rightarrow> (string \<times> json) list" where
  "evaluate_answer parse grader question question_type answer job_title job_description =
     (case grader \<lparr>gr_question = question, gr_question_type = question_type,
                    gr_answer = answer, gr_job_title = job_title,
                    gr_job_description = job_description\<rparr> of
        Failure msg \<Rightarrow> fallback_evaluation msg
      | Json parsed \<Rightarrow>
          (case validate_evaluation parse parsed of
             Inl e \<Rightarrow> fallback_evaluation (snd e)
           | Inr result \<Rightarrow> result))"

section \<open>Aggregator and Recommendation Gate\<close>

text \<open>
  \<open>generate_final_report\<close> of the new engine reads a list of dicts. An item holds the
  question, its type and the answer, which is \<open>None\<close> for a question without answer.
  A key read with \<open>.get(key, default)\<close> is modelled by its value, the default standing
  for an absent key; the evaluation as a whole may be absent. Scores are Python floats
  and are modelled by their exact rational values: the arithmetic of the aggregation is
  exact here, without the rounding error of binary64 sums and quotients.
\<close>

record evaluation =
  ev_score :: rat
  ev_strengths :: json
  ev_weaknesses :: json

record answer_data =
  ans_text :: string
  ans_evaluation :: "evaluation option"
  ans_skipped :: bool

record result_item =
  item_question :: string
  item_type :: string
  item_answer :: "answer_data option"

text \<open>\<open>str.lower()\<close> on ASCII text.\<close>

definition lower_char :: "char \<Rightarrow> char" where
  "lower_char c =
     (let n = (of_char c :: nat) in if 65 \<le> n \<and> n \<le> 90 then char_of (n + 32) else c)"

definition py_lower :: "string \<Rightarrow> string" where
  "py_lower s = map lower_char s"

text \<open>Line 272: \<open>answered_questions / total_questions if total_questions > 0 else 0\<close>.\<close>

definition answered_questions :: "result_item list \<Rightarrow> nat" where
  "answered_questions interview_results =
     length (filter (\<lambda>q. item_answer q \<noteq> None) interview_results)"

definition completion_rate :: "result_item list \<Rightarrow> rat" where
  "completion_rate interview_results =
     (let total_questions = length interview_results
      in if 0 < total_questions
         then of_nat (answered_questions interview_results) / of_nat total_questions
         else 0)"

text \<open>
  Lines 296 and 297: \<open>evaluation = answer_data.get('evaluation', {})\<close> and
  \<open>score = evaluation.get('score', 0)\<close>.
\<close>

definition answer_score :: "answer_data \<Rightarrow> rat" where
  "answer_score a = (case ans_evaluation a of None \<Rightarrow> 0 | Some ev \<Rightarrow> ev_score ev)"

definition answer_strengths :: "answer_data \<Rightarrow> json" where
  "answer_strengths a = (case ans_evaluation a of None \<Rightarrow> JList [] | Some ev \<Rightarrow> ev_strengths ev)"

definition answer_weaknesses :: "answer_data \<Rightarrow> json" where
  "answer_weaknesses a = (case ans_evaluation a of None \<Rightarrow> JList [] | Some ev \<Rightarrow> ev_weaknesses ev)"

type_synonym score_table = "(string \<times> rat list) list"

definition scores_by_type_init :: score_table where
  "scores_by_type_init =
     [(''technical'', []), (''scenario'', []), (''behavioral'', []), (''problem_solving'', [])]"

text \<open>Lines 300 and 301: \<open>if q_type in scores_by_type: scores_by_type[q_type].append(score)\<close>.\<close>

definition track_score :: "score_table \<Rightarrow> string \<Rightarrow> rat \<Rightarrow> score_table" where
  "track_score scores_by_type q_type s =
     (case map_of scores_by_type q_type of
        None \<Rightarrow> scores_by_type
      | Some scores \<Rightarrow> AList.update q_type (scores @ [s]) scores_by_type)"

text \<open>The body of the loop of lines 283 to 311 on \<open>(formatted_results, scores_by_type)\<close>.\<close>

definition track_item :: "json list \<times> score_table \<Rightarrow> result_item \<Rightarrow> json list \<times> score_table" where
  "track_item st item =
     (let q_type = py_lower (item_type item)
      in case item_answer item of
           None \<Rightarrow>
             (fst st @ [JDict [(''question'', JStr (item_question item)),
                               (''type'', JStr q_type),
                               (''answered'', JBool False)]],
              snd st)
         | Some a \<Rightarrow>
             (fst st @ [JDict [(''question'', JStr (item_question item)),
                               (''type'', JStr q_type),
                               (''answered'', JBool True),
                               (''answer'', JStr (ans_text a)),
                               (''score'', JFloat (Finite (answer_score a))),
                               (''strengths'', answer_strengths a),
                               (''weaknesses'', answer_weaknesses a)]],
              track_score (snd st) q_type (answer_score a)))"

definition formatted_results :: "result_item list \<Rightarrow> json list" where
  "formatted_results interview_results =
     fst (foldl track_item ([], scores_by_type_init) interview_results)"

definition scores_by_type :: "result_item list \<Rightarrow> score_table" where
  "scores_by_type interview_results =
     snd (foldl track_item ([], scores_by_type_init) interview_results)"

text \<open>Lines 314 to 319: the average of every type, \<open>0\<close> for a type without scores.\<close>

definition average :: "rat list \<Rightarrow> rat" where
  "average scores = (if scores \<noteq> [] then sum_list scores / of_nat (length scores) else 0)"

definition avg_scores :: "score_table \<Rightarrow> (string \<times> rat) list" where
  "avg_scores tbl = map (\<lambda>(q_type, scores). (q_type, average scores)) tbl"

definition weights :: "(string \<times> rat) list" where
  "weights =
     [(''technical'', 4 / 10), (''scenario'', 3 / 10),
      (''behavioral'', 15 / 100), (''problem_solving'', 15 / 100)]"

text \<open>
  Lines 329 to 341: the loop over \<open>avg_scores.items()\<close> on \<open>(overall_score, total_weight)\<close>
  and the final quotient.
\<close>

definition add_weighted :: "score_table \<Rightarrow> rat \<times> rat \<Rightarrow> string \<times> rat \<Rightarrow> rat \<times> rat" where
  "add_weighted tbl acc entry =
     (case entry of (q_type, s) \<Rightarrow>
        (case map_of tbl q_type of
           None \<Rightarrow> acc
         | Some scores \<Rightarrow>
             if scores \<noteq> []
             then (let weight = (case map_of weights q_type of None \<Rightarrow> 0 | Some w \<Rightarrow> w)
                   in (fst acc + s * weight, snd acc + weight))
             else acc))"

definition overall_score :: "result_item list \<Rightarrow> rat" where
  "overall_score interview_results =
     (let tbl = scores_by_type interview_results;
          acc = foldl (add_weighted tbl) (0, 0) (avg_scores tbl)
      in if 0 < snd acc then fst acc / snd acc else 0)"

definition category_score :: "result_item list \<Rightarrow> string \<Rightarrow> rat" where
  "category_score interview_results q_type =
     (case map_of (avg_scores (scores_by_type interview_results)) q_type of
        None \<Rightarrow> 0
      | Some s \<Rightarrow> s)"

text \<open>Lines 348 to 354: \<open>formatted_data['scores']\<close>, every entry rounded to one decimal.\<close>

definition report_scores :: "result_item list \<Rightarrow> (string \<times> json) list" where
  "report_scores interview_results =
     [(''overall'', JFloat (Finite (round_1 (overall_score interview_results)))),
      (''technical'', JFloat (Finite (round_1 (category_score interview_results ''technical'')))),
      (''scenario'', JFloat (Finite (round_1 (category_score interview_results ''scenario'')))),
      (''behavioral'', JFloat (Finite (round_1 (category_score interview_results ''behavioral'')))),
      (''problem_solving'',
         JFloat (Finite (round_1 (category_score interview_results ''problem_solving''))))]"

text \<open>What the prompt of the narrative call is built from.\<close>

record narrative_request =
  nr_job_title :: string
  nr_job_description :: string
  nr_resume_text :: string
  nr_answered_questions :: nat
  nr_total_questions :: nat
  nr_completion_percent :: int
  nr_scores :: "(string \<times> json) list"
  nr_question_results :: "json list"

text \<open>
  Lines 443 to 493: the report of the handler. It first sets \<open>completion_rate = 0\<close> and
  every score to \<open>0\<close> and then reads these values back.
\<close>

definition fallback_report :: "string \<Rightarrow> (string \<times> json) list" where
  "fallback_report msg =
     [(''overall_assessment'',
         JStr ''Could not generate a comprehensive assessment due to an error.''),
      (''technical_skills'',
         JDict [(''assessment'', JStr ''Technical skills assessment could not be completed.''),
                (''strengths'', JList []),
                (''weaknesses'', JList [])]),
      (''communication_skills'',
         JDict [(''assessment'',
                   JStr ''Communication skills assessment could not be completed.'')]),
      (''problem_solving'',
         JDict [(''assessment'', JStr ''Problem solving assessment could not be completed.'')]),
      (''key_strengths'', JList [JStr ''Unable to determine key strengths'']),
      (''areas_for_improvement'', JList [JStr ''Unable to determine areas for improvement'']),
      (''key_observations'',
         JList [JStr ''System encountered an error during final assessment'']),
      (''interview_completion'',
         JDict [(''assessment'',
                   JStr ''The candidate completed 0% of the interview questions.'')]),
      (''recommendation'', JStr ''Unable to determine''),
      (''reasoning'', JStr (''An error occurred during the final assessment: '' @ msg)),
      (''scores'',
         JDict [(''overall'', JInt 0), (''technical'', JInt 0), (''scenario'', JInt 0),
                (''behavioral'', JInt 0), (''problem_solving'', JInt 0)]),
      (''completion_rate'', JInt 0)]"

text \<open>
  \<open>generate_final_report\<close>: the report and the list of the calls made to the narrative
  service. With typed items nothing raises before the call, so the call is made for
  every input; a reply that is not a JSON object raises \<open>TypeError\<close> at
  \<open>assessment["scores"] = ...\<close>.
\<close>

definition generate_final_report ::
  "(narrative_request \<Rightarrow> reply) \<Rightarrow> string \<Rightarrow> string \<Rightarrow> string \<Rightarrow> result_item list \<Rightarrow>
   (string \<times> json) list \<times> narrative_request list" where
  "generate_final_report narrator job_title job_description resume_text interview_results =
     (let rate = completion_rate interview_results;
          request =
            \<lparr>nr_job_title = job_title, nr_job_description = job_description,
             nr_resume_text = resume_text,
             nr_answered_questions = answered_questions interview_results,
             nr_total_questions = length interview_results,
             nr_completion_percent = \<lfloor>rate * 100\<rfloor>,
             nr_scores = report_scores interview_results,
             nr_question_results = formatted_results interview_results\<rparr>
      in case narrator request of
           Failure msg \<Rightarrow> (fallback_report msg, [request])
         | Json (JDict assessment) \<Rightarrow>
             (dict_set (dict_set assessment ''scores'' (JDict (report_scores interview_results)))
                ''completion_rate'' (JFloat (Finite rate)),
              [request])
         | Json _ \<Rightarrow>
             (fallback_report ''object does not support item assignment'', [request]))"

section \<open>Persistence of answers\<close>

text \<open>
  \<open>save_interview_answer\<close> runs one \<open>INSERT\<close> into \<open>interview_answers\<close>. The state of the
  database is the set of ids of \<open>interview_questions_new\<close>, the columns and rows of
  \<open>interview_answers\<close> and the next value of its serial \<open>id\<close>. A row keeps the id, the
  question id and the eleven other parameters of the statement in their order.
\<close>

record answer_row =
  row_id :: nat
  row_question_id :: nat
  row_values :: "json list"

record database =
  question_ids :: "nat list"
  answer_columns :: "string list"
  answer_rows :: "answer_row list"
  next_answer_id :: nat

text \<open>The columns that \<open>update_database_schema\<close> creates (lines 102 to 118).\<close>

definition created_answer_columns :: "string list" where
  "created_answer_columns =
     [''id'', ''question_id'', ''answer_text'', ''score'', ''technical_accuracy'',
      ''clarity_of_communication'', ''relevance'', ''demonstrated_expertise'',
      ''strengths'', ''weaknesses'', ''feedback'', ''response_time'', ''answered_at'']"

text \<open>The columns that the \<open>INSERT\<close> of \<open>save_interview_answer\<close> names (lines 153 to 166).\<close>

definition insert_columns :: "string list" where
  "insert_columns =
     [''question_id'', ''answer_text'', ''score'', ''technical_accuracy'',
      ''clarity_of_communication'', ''relevance'', ''demonstrated_expertise'',
      ''strengths'', ''weaknesses'', ''feedback'', ''response_time'', ''is_skipped'']"

text \<open>
  The statement fails when the table lacks a named column, when the question id is not
  in \<open>interview_questions_new\<close> (the foreign key), or when \<open>answer_text\<close>, the first of
  the values, is \<open>NULL\<close>. The table has no other constraint: in particular none on the
  number of rows of a question. Otherwise the row is appended under the next id.
\<close>

definition insert_answer :: "database \<Rightarrow> nat \<Rightarrow> json list \<Rightarrow> py_exn + database \<times> nat" where
  "insert_answer db question_id vals =
     (if \<not> list_all (\<lambda>c. c \<in> set (answer_columns db)) insert_columns
      then Inl (DatabaseError, ''column does not exist'')
      else if question_id \<notin> set (question_ids db)
      then Inl (DatabaseError, ''violates foreign key constraint'')
      else if take 1 vals = [JNull]
      then Inl (DatabaseError, ''violates not-null constraint'')
      else Inr (db\<lparr>answer_rows := answer_rows db @
                       [\<lparr>row_id = next_answer_id db, row_question_id = question_id,
                         row_values = vals\<rparr>],
                    next_answer_id := Suc (next_answer_id db)\<rparr>,
                next_answer_id db))"

text \<open>\<open>d.get(key, default)\<close>\<close>

definition get_or :: "(string \<times> json) list \<Rightarrow> string \<Rightarrow> json \<Rightarrow> json" where
  "get_or d k dflt = (case dict_get d k of None \<Rightarrow> dflt | Some v \<Rightarrow> v)"

text \<open>
  Lines 148 to 189: the parameters of the statement. \<open>evaluation.get\<close> needs a dict and
  raises \<open>AttributeError\<close> on any other value.
\<close>

definition answer_values :: "(string \<times> json) list \<Rightarrow> py_exn + json list" where
  "answer_values answer_data =
     (case get_or answer_data ''evaluation'' (JDict []) of
        JDict evaluation \<Rightarrow>
          Inr [get_or answer_data ''answer_text'' (JStr ''''),
               get_or evaluation ''score'' (JInt 0),
               get_or evaluation ''technical_accuracy'' (JInt 0),
               get_or evaluation ''clarity_of_communication'' (JInt 0),
               get_or evaluation ''relevance'' (JInt 0),
               get_or evaluation ''demonstrated_expertise'' (JInt 0),
               get_or evaluation ''strengths'' (JList []),
               get_or evaluation ''weaknesses'' (JList []),
               get_or evaluation ''feedback'' (JStr ''''),
               get_or answer_data ''response_time'' (JInt 0),
               get_or answer_data ''skipped'' (JBool False)]
      | _ \<Rightarrow> Inl (AttributeError, ''object has no attribute get''))"

text \<open>
  \<open>save_interview_answer\<close>: the new state and the returned id. Every exception of the
  body is caught at line 200 and \<open>None\<close> is returned; the function has no path that
  raises, and no test of the answers already stored.
\<close>

definition save_interview_answer ::
  "database \<Rightarrow> nat \<Rightarrow> (string \<times> json) list \<Rightarrow> database \<times> nat option" where
  "save_interview_answer db question_id answer_data =
     (case answer_values answer_data of
        Inl e \<Rightarrow> (db, None)
      | Inr vals \<Rightarrow>
          (case insert_answer db question_id vals of
             Inl e \<Rightarrow> (db, None)
           | Inr (db', answer_id) \<Rightarrow> (db', Some answer_id)))"

definition answers_of :: "database \<Rightarrow> nat \<Rightarrow> answer_row list" where
  "answers_of db question_id = filter (\<lambda>r. row_question_id r = question_id) (answer_rows db)"

section \<open>Predicates and inputs of the statements\<close>




text \<open>Services with a fixed behaviour.\<close>

definition failing_generator :: "question_request \<Rightarrow> reply" where
  "failing_generator request = Failure ''Connection error.''"

definition partial_generator :: "question_request \<Rightarrow> reply" where
  "partial_generator request =
     Json (JDict [(''technical'', JList [JDict [(''question'', JStr ''Q1''),
                                                 (''context'', JStr ''C1'')]])])"



definition parse_none :: "string \<Rightarrow> pyfloat option" where
  "parse_none s = None"

definition huge_score :: int where
  "huge_score = 10 ^ 400"

definition overflow_grader :: "grading_request \<Rightarrow> reply" where
  "overflow_grader request = Json (JDict [(''score'', JInt huge_score)])"


text \<open>Items and interviews.\<close>

definition scored_answer :: "rat \<Rightarrow> answer_data" where
  "scored_answer s =
     \<lparr>ans_text = ''An answer.'',
      ans_evaluation = Some \<lparr>ev_score = s, ev_strengths = JList [], ev_weaknesses = JList []\<rparr>,
      ans_skipped = False\<rparr>"

text \<open>
  The answer that the button ``Next Question'' of \<open>interview_interface\<close> stores (lines
  601 to 612 of \<open>interview_ui.py\<close>), as \<open>get_interview_answers\<close> reads it back.
\<close>

definition skipped_answer :: answer_data where
  "skipped_answer =
     \<lparr>ans_text = ''[Question skipped by interviewer]'',
      ans_evaluation = Some \<lparr>ev_score = 0, ev_strengths = JList [], ev_weaknesses = JList []\<rparr>,
      ans_skipped = True\<rparr>"

definition answered_item :: "string \<Rightarrow> rat \<Rightarrow> result_item" where
  "answered_item q_type s =
     \<lparr>item_question = ''Question'', item_type = q_type, item_answer = Some (scored_answer s)\<rparr>"

definition skipped_item :: "string \<Rightarrow> result_item" where
  "skipped_item q_type =
     \<lparr>item_question = ''Question'', item_type = q_type, item_answer = Some skipped_answer\<rparr>"

definition open_item :: "string \<Rightarrow> result_item" where
  "open_item q_type =
     \<lparr>item_question = ''Question'', item_type = q_type, item_answer = None\<rparr>"

text \<open>Thirteen of twenty questions answered: a completion rate of 0.65.\<close>

definition partial_interview :: "result_item list" where
  "partial_interview =
     replicate 13 (answered_item ''technical'' 8) @ replicate 7 (open_item ''scenario'')"

definition single_answer_interview :: "result_item list" where
  "single_answer_interview = [answered_item ''technical'' 9]"

definition skip_interview :: "result_item list" where
  "skip_interview = [answered_item ''technical'' 8, skipped_item ''technical'']"

definition mixed_interview :: "result_item list" where
  "mixed_interview = [answered_item ''technical'' 8, skipped_item ''scenario'']"

definition hire_narrator :: "narrative_request \<Rightarrow> reply" where
  "hire_narrator request =
     Json (JDict [(''recommendation'', JStr ''Hire''),
                  (''reasoning'', JStr ''Strong answers throughout.'')])"

definition failing_narrator :: "narrative_request \<Rightarrow> reply" where
  "failing_narrator request = Failure ''Connection error.''"

text \<open>
  The specification's words, for comparison with the code: a scored answer is an answer
  that is not skipped and has an evaluation; the score of a category is the mean of the
  scores of its scored answers, or \<open>0\<close> without any; the overall score is the weighted
  mean of the category scores over the categories with a scored answer, or \<open>0\<close> without
  any.
\<close>

definition spec_scored :: "result_item \<Rightarrow> bool" where
  "spec_scored item =
     (case item_answer item of
        None \<Rightarrow> False
      | Some a \<Rightarrow> \<not> ans_skipped a \<and> ans_evaluation a \<noteq> None)"

definition spec_scores :: "result_item list \<Rightarrow> string \<Rightarrow> rat list" where
  "spec_scores interview_results c =
     map (\<lambda>item. case item_answer item of None \<Rightarrow> 0 | Some a \<Rightarrow> answer_score a)
       (filter (\<lambda>item. spec_scored item \<and> py_lower (item_type item) = c) interview_results)"

definition spec_category_score :: "result_item list \<Rightarrow> string \<Rightarrow> rat" where
  "spec_category_score interview_results c = average (spec_scores interview_results c)"

definition weight_of :: "string \<Rightarrow> rat" where
  "weight_of c = (case map_of weights c of None \<Rightarrow> 0 | Some w \<Rightarrow> w)"

definition spec_overall_score :: "result_item list \<Rightarrow> rat" where
  "spec_overall_score interview_results =
     (let scored = filter (\<lambda>c. spec_scores interview_results c \<noteq> []) categories
      in if scored = [] then 0
         else sum_list (map (\<lambda>c. weight_of c * spec_category_score interview_results c) scored)
              / sum_list (map weight_of scored))"

text \<open>
  A database with one question and no answer. Its table \<open>interview_answers\<close> has the
  columns that \<open>update_database_schema\<close> creates and the column \<open>is_skipped\<close>, which
  \<open>save_interview_answer\<close> writes and \<open>get_interview_answers\<close> reads.
\<close>

definition one_question_db :: database where
  "one_question_db =
     \<lparr>question_ids = [1],
      answer_columns = created_answer_columns @ [''is_skipped''],
      answer_rows = [],
      next_answer_id = 1\<rparr>"

text \<open>The dicts that the buttons ``Submit Response'' and ``Next Question'' save.\<close>

definition submitted_answer :: "(string \<times> json) list" where
  "submitted_answer =
     [(''answer_text'', JStr ''An answer.''),
      (''evaluation'', JDict [(''score'', JFloat (Finite 7)), (''feedback'', JStr ''Good.'')]),
      (''response_time'', JInt 30)]"

definition skip_record :: "(string \<times> json) list" where
  "skip_record =
     [(''answer_text'', JStr ''[Question skipped by interviewer]''),
      (''evaluation'',
         JDict [(''score'', JInt 0),
                (''feedback'', JStr ''This question was skipped.''),
                (''improvement_suggestions'', JStr ''''),
                (''strengths'', JStr ''''),
                (''weaknesses'', JStr ''Question was not attempted.'')]),
      (''response_time'', JInt 0),
      (''skipped'', JBool True)]"

text \<open>The question is skipped, then an answer to it is submitted, then another one.\<close>

definition after_skip :: database where
  "after_skip = fst (save_interview_answer one_question_db 1 skip_record)"

definition after_answer :: database where
  "after_answer = fst (save_interview_answer after_skip 1 submitted_answer)"

text \<open>When the \<open>INSERT\<close> of \<open>save_interview_answer\<close> is accepted.\<close>

definition insert_accepted :: "database \<Rightarrow> nat \<Rightarrow> (string \<times> json) list \<Rightarrow> bool" where
  "insert_accepted db question_id answer_data =
     (list_all (\<lambda>c. c \<in> set (answer_columns db)) insert_columns \<and>
      question_id \<in> set (question_ids db) \<and>
      (case answer_values answer_data of
         Inl e \<Rightarrow> False
       | Inr vals \<Rightarrow> take 1 vals \<noteq> [JNull]))"

section \<open>Evaluating binary64 arithmetic\<close>

lemma bit_length_0: "bit_length 0 = 0"
  by (simp add: bit_length.simps)

lemma bit_length_Suc0: "bit_length (Suc 0) = Suc 0"
  by (simp add: bit_length.simps)

lemma bit_length_1: "bit_length 1 = 1"
  by (simp add: bit_length.simps)

lemma bit_length_Bit0: "bit_length (numeral (Num.Bit0 n)) = Suc (bit_length (numeral n))"
  by (subst bit_length.simps) simp

lemma bit_length_Bit1: "bit_length (numeral (Num.Bit1 n)) = Suc (bit_length (numeral n))"
  by (subst bit_length.simps) simp

lemma floor_rat_numeral_div: "\<lfloor>numeral a / numeral b :: rat\<rfloor> = numeral a div numeral b"
  by (metis floor_divide_of_int_eq of_int_numeral)

lemma ceiling_rat_numeral_div:
  "\<lceil>numeral a / numeral b :: rat\<rceil> = - (- numeral a div numeral b)"
  by (metis ceiling_def floor_divide_of_int_eq minus_divide_left of_int_minus of_int_numeral)

lemmas double_eval =
  round_double_def ilog2_def pow2_def round_half_even_def Let_def
  bit_length_0 bit_length_Suc0 bit_length_1 bit_length_Bit0 bit_length_Bit1
  floor_rat_numeral_div ceiling_rat_numeral_div

lemma lit_0_4_value: "lit_0_4 = 3602879701896397 / 9007199254740992"
  by (simp add: lit_0_4_def double_eval)

lemma lit_0_3_value: "lit_0_3 = 5404319552844595 / 18014398509481984"
  by (simp add: lit_0_3_def double_eval)

lemma lit_0_2_value: "lit_0_2 = 3602879701896397 / 18014398509481984"
  by (simp add: lit_0_2_def double_eval)

section \<open>Quota split\<close>

lemma floor_tenths: "\<lfloor>(numeral k / 10 :: rat) * of_int N\<rfloor> = (numeral k * N) div 10"
proof -
  have "(numeral k / 10 :: rat) * of_int N = of_int (numeral k * N) / of_int 10"
    by simp
  then show ?thesis
    by (simp only: floor_divide_of_int_eq)
qed

lemma round_small_int:
  "list_all (\<lambda>n. round_double (of_int n) = of_int n)
     [5, 6, 7, 8, 9, 10, 11, 12, 13, 14, 15, 16, 17, 18, 19, 20, 21, 22,
      23, 24, 25, 26, 27, 28, 29, 30, 31, 32, 33, 34, 35, 36, 37, 38, 39, 40]"
  by (simp add: double_eval)

lemma below_overflow_bound:
  fixes x :: rat
  assumes "\<bar>x\<bar> \<le> 64"
  shows "\<not> 2 ^ 1024 \<le> \<bar>x\<bar>"
proof -
  have "(2::rat) ^ 7 \<le> 2 ^ 1024"
    by (rule power_increasing) simp_all
  moreover have "\<bar>x\<bar> < 2 ^ 7"
    using assms by simp
  ultimately show ?thesis
    by linarith
qed

lemma technical_products:
  "list_all (\<lambda>n. py_int (round_double (of_int n * lit_0_4)) = (4 * n) div 10)
     [5, 6, 7, 8, 9, 10, 11, 12, 13, 14, 15, 16, 17, 18, 19, 20, 21, 22,
      23, 24, 25, 26, 27, 28, 29, 30, 31, 32, 33, 34, 35, 36, 37, 38, 39, 40]"
  by (simp add: lit_0_4_value py_int_def double_eval)

lemma scenario_products:
  "list_all (\<lambda>n. py_int (round_double (of_int n * lit_0_3)) = (3 * n) div 10)
     [5, 6, 7, 8, 9, 10, 11, 12, 13, 14, 15, 16, 17, 18, 19, 20, 21, 22,
      23, 24, 25, 26, 27, 28, 29, 30, 31, 32, 33, 34, 35, 36, 37, 38, 39, 40]"
  by (simp add: lit_0_3_value py_int_def double_eval)

lemma behavioral_products:
  "list_all (\<lambda>n. py_int (round_double (of_int n * lit_0_2)) = (2 * n) div 10)
     [5, 6, 7, 8, 9, 10, 11, 12, 13, 14, 15, 16, 17, 18, 19, 20, 21, 22,
      23, 24, 25, 26, 27, 28, 29, 30, 31, 32, 33, 34, 35, 36, 37, 38, 39, 40]"
  by (simp add: lit_0_2_value py_int_def double_eval)

lemma in_quota_range:
  "5 \<le> N \<Longrightarrow> N \<le> 40 \<Longrightarrow>
   N \<in> set [5, 6, 7, 8, 9, 10, 11, 12, 13, 14, 15, 16, 17, 18, 19, 20, 21, 22,
      23, 24, 25, 26, 27, 28, 29, 30, 31, 32, 33, 34, 35, 36, 37, 38, 39, 40 :: int]"
  by simp arith

lemma quota_counts_in_range:
  assumes "5 \<le> N" and "N \<le> 40"
  shows "quota_counts N =
           Inr ((4 * N) div 10, (3 * N) div 10, (2 * N) div 10,
                N - (4 * N) div 10 - (3 * N) div 10 - (2 * N) div 10)"
proof -
  note mem = in_quota_range [OF assms]
  have r: "round_double (of_int N) = of_int N"
    using round_small_int mem unfolding list_all_iff by blast
  have "\<bar>of_int N :: rat\<bar> \<le> 64"
    using assms by simp
  then have f: "float_of_int N = Inr (of_int N)"
    using below_overflow_bound [of "of_int N"]
    by (simp only: float_of_int_def r Let_def if_False)
  have t: "py_int (round_double (of_int N * lit_0_4)) = (4 * N) div 10"
    using technical_products mem unfolding list_all_iff by blast
  have s: "py_int (round_double (of_int N * lit_0_3)) = (3 * N) div 10"
    using scenario_products mem unfolding list_all_iff by blast
  have b: "py_int (round_double (of_int N * lit_0_2)) = (2 * N) div 10"
    using behavioral_products mem unfolding list_all_iff by blast
  show ?thesis
    by (simp only: quota_counts_def int_times_float_def f t s b sum.case Let_def)
qed

text \<open>
  C6. For every \<open>N\<close> from 5 to 40 the quotas computed by \<open>generate_questions\<close> (in both
  engines) are \<open>technical = floor(0.4 N)\<close>, \<open>scenario = floor(0.3 N)\<close>,
  \<open>behavioral = floor(0.2 N)\<close> and \<open>problem_solving = N - technical - scenario - behavioral\<close>;
  they sum to exactly \<open>N\<close> and none is negative. The floors on the right are those of the
  exact products; the code takes them of binary64 products, which agree on this range.
\<close>

theorem quota_split_sums_to_N:
  assumes "5 \<le> N" and "N \<le> 40"
  shows "\<exists>t s b p. quota_counts N = Inr (t, s, b, p) \<and>
           t = \<lfloor>(4 / 10 :: rat) * of_int N\<rfloor> \<and>
           s = \<lfloor>(3 / 10 :: rat) * of_int N\<rfloor> \<and>
           b = \<lfloor>(2 / 10 :: rat) * of_int N\<rfloor> \<and>
           p = N - t - s - b \<and>
           t + s + b + p = N \<and> 0 \<le> t \<and> 0 \<le> s \<and> 0 \<le> b \<and> 0 \<le> p"
proof -
  have nonneg: "0 \<le> (4 * N) div 10" "0 \<le> (3 * N) div 10" "0 \<le> (2 * N) div 10"
    using assms by simp_all
  have rest: "0 \<le> N - (4 * N) div 10 - (3 * N) div 10 - (2 * N) div 10"
    using assms by arith
  have ft: "\<lfloor>(4 / 10 :: rat) * of_int N\<rfloor> = (4 * N) div 10"
    and fs: "\<lfloor>(3 / 10 :: rat) * of_int N\<rfloor> = (3 * N) div 10"
    and fb: "\<lfloor>(2 / 10 :: rat) * of_int N\<rfloor> = (2 * N) div 10"
    by (rule floor_tenths)+
  show ?thesis
    unfolding ft fs fb
    using quota_counts_in_range [OF assms] nonneg rest by auto
qed

theorem quota_split_sums_to_N_witness:
  "quota_counts 7 = Inr (2, 2, 1, 2) \<and> (5::int) \<le> 7 \<and> (7::int) \<le> 40"
  using quota_split_sums_to_N [of 7] by (auto simp: floor_rat_numeral_div)

section \<open>Question Planner: the returned mapping\<close>

lemma dict_get_dict_set: "dict_get (dict_set d k v) k' = (if k' = k then Some v else dict_get d k')"
  by (simp add: dict_get_def dict_set_def update_conv')

lemma dict_get_ensure_category:
  "dict_get (ensure_category d c) k =
     (if k = c \<and> dict_get d k = None then Some (JList []) else dict_get d k)"
  by (auto simp: ensure_category_def dict_get_dict_set)

lemma dict_get_foldl_ensure_category:
  "dict_get (foldl ensure_category d cs) k =
     (if k \<in> set cs \<and> dict_get d k = None then Some (JList []) else dict_get d k)"
proof (induction cs arbitrary: d)
  case Nil
  then show ?case by simp
next
  case (Cons c cs)
  then show ?case
    by (simp add: dict_get_ensure_category)
qed

lemma dict_get_empty_questions:
  assumes "c \<in> set categories"
  shows "dict_get empty_questions c = Some (JList [])"
  using assms by (auto simp: categories_def empty_questions_def dict_get_def)

lemma check_questions_result:
  assumes "check_questions parsed = Inr result"
  shows "\<exists>d. parsed = JDict d \<and> result = foldl ensure_category d categories"
  using assms
  by (cases parsed) (auto simp: check_questions_def Let_def split: sum.splits)

lemma generate_questions_cases:
  "generate_questions g jt jd rt n = empty_questions \<or>
   (\<exists>q d. quota_counts n = Inr q \<and>
      g \<lparr>qr_job_title = jt, qr_job_description = jd, qr_resume_text = rt, qr_quotas = q\<rparr>
        = Json (JDict d) \<and>
      generate_questions g jt jd rt n = foldl ensure_category d categories)"
  by (auto simp: generate_questions_def split: sum.splits reply.splits
           dest: check_questions_result)

text \<open>
  C10. Every value returned by \<open>generate_questions\<close> of the new engine, on the success
  path and on the failure path, has the four keys \<open>technical\<close>, \<open>scenario\<close>,
  \<open>behavioral\<close> and \<open>problem_solving\<close>; a category that the answer of the service omits
  is present in the result as the empty list.
\<close>

theorem generate_questions_all_categories:
  assumes "c \<in> set categories"
  shows "(\<exists>v. dict_get (generate_questions g jt jd rt n) c = Some v) \<and>
         (\<forall>q d. quota_counts n = Inr q \<and>
                g \<lparr>qr_job_title = jt, qr_job_description = jd, qr_resume_text = rt,
                   qr_quotas = q\<rparr> = Json (JDict d) \<and>
                dict_get d c = None \<longrightarrow>
                dict_get (generate_questions g jt jd rt n) c = Some (JList []))"
proof -
  consider (empty) "generate_questions g jt jd rt n = empty_questions"
    | (filled) q d where "quota_counts n = Inr q"
        "g \<lparr>qr_job_title = jt, qr_job_description = jd, qr_resume_text = rt, qr_quotas = q\<rparr>
           = Json (JDict d)"
        "generate_questions g jt jd rt n = foldl ensure_category d categories"
    using generate_questions_cases [of g jt jd rt n] by blast
  then show ?thesis
  proof cases
    case empty
    then show ?thesis
      using assms by (simp add: dict_get_empty_questions)
  next
    case filled
    then show ?thesis
      using assms by (auto simp: dict_get_foldl_ensure_category)
  qed
qed

theorem generate_questions_all_categories_witness:
  "''scenario'' \<in> set categories \<and>
   dict_get (generate_questions partial_generator ''Engineer'' ''JD'' ''CV'' 10) ''scenario''
     = Some (JList []) \<and>
   dict_get (generate_questions partial_generator ''Engineer'' ''JD'' ''CV'' 10) ''technical''
     \<noteq> None"
proof -
  have c: "''scenario'' \<in> set categories" "''technical'' \<in> set categories"
    by (simp_all add: categories_def)
  have q: "quota_counts 10 = Inr (4, 3, 2, 1)"
    using quota_counts_in_range [of 10] by simp
  have d: "dict_get [(''technical'', v)] ''scenario'' = None" for v :: json
    by (simp add: dict_get_def)
  show ?thesis
    using generate_questions_all_categories [OF c(1), of partial_generator "''Engineer''" "''JD''" "''CV''" 10]
      generate_questions_all_categories [OF c(2), of partial_generator "''Engineer''" "''JD''" "''CV''" 10]
      c q d
    by (auto simp: partial_generator_def)
qed

section \<open>Question Planner: a failing call\<close>

text \<open>
  C7, as the claim states it, fails on the engine for SAP modules: with ten questions
  and a call that raises, its \<open>generate_questions\<close> raises the exception again.
\<close>

theorem generate_questions_sap_raises:
  "generate_questions_sap failing_generator ''FI'' ''JD'' ''CV'' 10
     = Inl (ServiceError, ''Connection error.'')"
proof -
  have "quota_counts 10 = Inr (4, 3, 2, 1)"
    using quota_counts_in_range [of 10] by simp
  then show ?thesis
    by (simp add: generate_questions_sap_def failing_generator_def)
qed

text \<open>
  C7, amended. When the call to the generator fails, \<open>generate_questions\<close> of the new
  engine returns the mapping of the four categories to empty lists and does not raise,
  whatever the number of questions; \<open>generate_questions\<close> of the engine for SAP modules
  raises an exception to its caller.
\<close>

theorem generate_questions_on_failure:
  assumes "\<And>request. \<exists>msg. g request = Failure msg"
  shows "generate_questions g jt jd rt n = empty_questions \<and>
         generate_questions g jt jd rt n =
           [(''technical'', JList []), (''scenario'', JList []),
            (''behavioral'', JList []), (''problem_solving'', JList [])] \<and>
         (\<exists>e. generate_questions_sap g jt jd rt n = Inl e)"
proof -
  have new: "generate_questions g jt jd rt n = empty_questions"
  proof (cases "quota_counts n")
    case (Inl e)
    then show ?thesis
      by (simp add: generate_questions_def)
  next
    case (Inr q)
    obtain msg where
      "g \<lparr>qr_job_title = jt, qr_job_description = jd, qr_resume_text = rt, qr_quotas = q\<rparr>
         = Failure msg"
      using assms by blast
    with Inr show ?thesis
      by (simp add: generate_questions_def)
  qed
  have old: "\<exists>e. generate_questions_sap g jt jd rt n = Inl e"
  proof (cases "quota_counts n")
    case (Inl e)
    then show ?thesis
      by (simp add: generate_questions_sap_def)
  next
    case (Inr q)
    obtain msg where
      "g \<lparr>qr_job_title = jt, qr_job_description = jd, qr_resume_text = rt, qr_quotas = q\<rparr>
         = Failure msg"
      using assms by blast
    with Inr show ?thesis
      by (simp add: generate_questions_sap_def)
  qed
  from new old show ?thesis
    by (simp add: empty_questions_def)
qed

theorem generate_questions_on_failure_witness:
  "generate_questions failing_generator ''Engineer'' ''JD'' ''CV'' 10 = empty_questions \<and>
   (\<exists>e. generate_questions_sap failing_generator ''Engineer'' ''JD'' ''CV'' 10 = Inl e)"
  using generate_questions_on_failure [of failing_generator "''Engineer''" "''JD''" "''CV''" 10]
  by (simp add: failing_generator_def)

section \<open>Answer Scorer: clamping\<close>









section \<open>Answer Scorer: the loops\<close>

lemma dict_get_ensure_field:
  "dict_get (ensure_field d c) k =
     (if k = c \<and> dict_get d k = None then Some (default_value k) else dict_get d k)"
  by (auto simp: ensure_field_def dict_get_dict_set)

lemma dict_get_foldl_ensure_field:
  "dict_get (foldl ensure_field d fs) k =
     (if k \<in> set fs \<and> dict_get d k = None then Some (default_value k) else dict_get d k)"
proof (induction fs arbitrary: d)
  case Nil
  then show ?case by simp
next
  case (Cons f fs)
  then show ?case
    by (simp add: dict_get_ensure_field)
qed

lemma clamp_scores_other:
  assumes "clamp_scores parse d fs = Inr d'" and "k \<notin> set fs"
  shows "dict_get d' k = dict_get d k"
  using assms
proof (induction fs arbitrary: d)
  case Nil
  then show ?case by simp
next
  case (Cons f fs)
  then show ?case
    by (auto simp: dict_get_dict_set split: option.splits sum.splits)
qed

lemma clamp_scores_field:
  assumes "clamp_scores parse d fs = Inr d'" and "distinct fs" and "f \<in> set fs"
  shows "\<exists>v v'. dict_get d f = Some v \<and> clamp_score parse v = Inr v' \<and> dict_get d' f = Some v'"
  using assms
proof (induction fs arbitrary: d)
  case Nil
  then show ?case by simp
next
  case (Cons g fs)
  from Cons.prems(1) obtain v v' where
    v: "dict_get d g = Some v" and v': "clamp_score parse v = Inr v'" and
    rest: "clamp_scores parse (dict_set d g v') fs = Inr d'"
    by (auto split: option.splits sum.splits)
  show ?case
  proof (cases "f = g")
    case True
    then have "g \<notin> set fs"
      using Cons.prems(2) by simp
    then have "dict_get d' g = Some v'"
      using clamp_scores_other [OF rest] by (simp add: dict_get_dict_set)
    with True v v' show ?thesis
      by simp
  next
    case False
    then have "f \<in> set fs"
      using Cons.prems(3) by simp
    then obtain w w' where
      "dict_get (dict_set d g v') f = Some w" "clamp_score parse w = Inr w'"
      "dict_get d' f = Some w'"
      using Cons.IH [OF rest] Cons.prems(2) by auto
    with False show ?thesis
      by (simp add: dict_get_dict_set)
  qed
qed

lemma clamp_scores_error:
  assumes "clamp_scores parse d fs = Inl e" and "distinct fs"
    and "\<And>f. f \<in> set fs \<Longrightarrow> dict_get d f \<noteq> None"
  shows "\<exists>f v. f \<in> set fs \<and> dict_get d f = Some v \<and> clamp_score parse v = Inl e"
  using assms
proof (induction fs arbitrary: d)
  case Nil
  then show ?case by simp
next
  case (Cons g fs)
  obtain v where v: "dict_get d g = Some v"
    using Cons.prems(3) [of g] by auto
  show ?case
  proof (cases "clamp_score parse v")
    case (Inl e')
    with v Cons.prems(1) have "e' = e"
      by simp
    with Inl v show ?thesis
      by auto
  next
    case (Inr v')
    with v Cons.prems(1) have rest: "clamp_scores parse (dict_set d g v') fs = Inl e"
      by simp
    have g: "g \<notin> set fs" and dist: "distinct fs"
      using Cons.prems(2) by simp_all
    have "\<And>f. f \<in> set fs \<Longrightarrow> dict_get (dict_set d g v') f \<noteq> None"
      using Cons.prems(3) by (simp add: dict_get_dict_set)
    from Cons.IH [OF rest dist this] obtain f w where
      "f \<in> set fs" "dict_get (dict_set d g v') f = Some w" "clamp_score parse w = Inl e"
      by blast
    with g show ?thesis
      by (auto simp: dict_get_dict_set split: if_splits)
  qed
qed

lemma distinct_score_fields: "distinct score_fields"
  by (simp add: score_fields_def)

lemma score_fields_required: "f \<in> set score_fields \<Longrightarrow> f \<in> set required_fields"
  by (simp add: required_fields_def)

lemma default_value_score_field: "f \<in> set score_fields \<Longrightarrow> default_value f = JInt 5"
  by (auto simp: score_fields_def default_value_def)

lemma float_of_int_5: "float_of_int 5 = Inr 5"
proof -
  have "round_double (of_int 5) = 5"
    by (simp add: double_eval)
  then show ?thesis
    using below_overflow_bound [of 5] by (simp add: float_of_int_def)
qed



lemma clamp_score_error:
  assumes "clamp_score parse v = Inl e"
  shows "\<exists>n. v = JInt n \<and> float_of_int n = Inl e \<and> fst e = OverflowError"
  using assms
  by (cases v) (auto simp: clamp_score_def float_of_int_def Let_def split: sum.splits if_splits option.splits)


section \<open>Answer Scorer: integers too large for a float\<close>

lemma bit_length_gt:
  assumes "2 ^ k \<le> n"
  shows "k < bit_length n"
  using assms
proof (induction k arbitrary: n)
  case 0
  then show ?case
    by (subst bit_length.simps) simp
next
  case (Suc k)
  then have "2 ^ k \<le> n div 2"
    by simp
  then have "k < bit_length (n div 2)"
    by (rule Suc.IH)
  moreover have "n \<noteq> 0"
  proof -
    have "0 < (2::nat) ^ Suc k"
      by (rule zero_less_power) simp
    with Suc.prems show ?thesis
      by linarith
  qed
  ultimately show ?case
    by (subst bit_length.simps) simp
qed

lemma bit_length_lower:
  assumes "0 < n"
  shows "2 ^ (bit_length n - 1) \<le> n"
  using assms
proof (induction n rule: bit_length.induct)
  case (1 n)
  show ?case
  proof (cases "n div 2 = 0")
    case True
    then have "bit_length n = Suc 0"
      using "1.prems" by (subst bit_length.simps) (simp add: bit_length.simps)
    then show ?thesis
      using "1.prems" by simp
  next
    case False
    then have ih: "2 ^ (bit_length (n div 2) - 1) \<le> n div 2"
      using "1.IH" "1.prems" by simp
    have pos: "0 < bit_length (n div 2)"
      using False by (subst bit_length.simps) simp
    have "bit_length n = Suc (bit_length (n div 2))"
      using "1.prems" by (subst bit_length.simps) simp
    then have "2 ^ (bit_length n - 1) = 2 * 2 ^ (bit_length (n div 2) - 1)"
      using pos by (cases "bit_length (n div 2)") simp_all
    also have "\<dots> \<le> 2 * (n div 2)"
      using ih by simp
    also have "\<dots> \<le> n"
      by simp
    finally show ?thesis .
  qed
qed

lemma round_half_even_ge_floor: "\<lfloor>x\<rfloor> \<le> round_half_even x"
  by (simp add: round_half_even_def Let_def)

lemma round_double_large:
  fixes x :: rat
  assumes "2 ^ 1024 \<le> x"
  shows "2 ^ 1024 \<le> round_double x"
proof -
  define m where "m = nat \<lfloor>x\<rfloor>"
  define b where "b = bit_length m"
  have x1: "1 \<le> x"
    using assms one_le_power [of "2::rat" 1024] by linarith
  have xpos: "0 < x"
    using x1 by simp
  have "(2::int) ^ 1024 \<le> \<lfloor>x\<rfloor>"
    using assms by (simp add: le_floor_iff)
  then have m_ge: "2 ^ 1024 \<le> m"
    unfolding m_def by (simp add: le_nat_iff)
  then have b_gt: "1024 < b"
    unfolding b_def by (rule bit_length_gt)
  have mpos: "0 < m"
  proof -
    have "0 < (2::nat) ^ 1024"
      by (rule zero_less_power) simp
    with m_ge show ?thesis
      by linarith
  qed
  have "2 ^ (b - 1) \<le> m"
    unfolding b_def using mpos by (rule bit_length_lower)
  then have "(2::rat) ^ (b - 1) \<le> of_nat m"
    by (metis of_nat_le_iff of_nat_numeral of_nat_power)
  also have "of_nat m \<le> x"
    unfolding m_def using xpos by (simp add: of_nat_nat)
  finally have lower: "(2::rat) ^ (b - 1) \<le> x" .
  have e: "ilog2 x = int b - 1"
    using x1 by (simp add: ilog2_def b_def m_def)
  have p1: "pow2 (53 - int b) = 1 / 2 ^ (b - 53)"
    using b_gt by (simp add: pow2_def nat_diff_distrib')  
  have p2: "pow2 (int b - 53) = 2 ^ (b - 53)"
    using b_gt by (simp add: pow2_def nat_diff_distrib')
  have "b - 1 = 52 + (b - 53)"
    using b_gt by simp
  then have split: "(2::rat) ^ (b - 1) = 2 ^ 52 * 2 ^ (b - 53)"
    by (simp only: power_add)
  have "(2::rat) ^ 52 \<le> x / 2 ^ (b - 53)"
    using lower split by (simp add: pos_le_divide_eq)
  then have "(2::int) ^ 52 \<le> \<lfloor>x / 2 ^ (b - 53)\<rfloor>"
    by (simp add: le_floor_iff)
  then have "(2::int) ^ 52 \<le> round_half_even (x / 2 ^ (b - 53))"
    using round_half_even_ge_floor [of "x / 2 ^ (b - 53)"] by linarith
  then have "(2::rat) ^ 52 \<le> of_int (round_half_even (x / 2 ^ (b - 53)))"
    by (metis of_int_le_iff of_int_numeral of_int_power)
  then have "(2::rat) ^ 52 * 2 ^ (b - 53) \<le> of_int (round_half_even (x / 2 ^ (b - 53))) * 2 ^ (b - 53)"
    by (simp add: mult_right_mono)
  moreover have "(2::rat) ^ 1024 \<le> 2 ^ (b - 1)"
    using b_gt by (intro power_increasing) simp_all
  moreover have "round_double x = of_int (round_half_even (x / 2 ^ (b - 53))) * 2 ^ (b - 53)"
    using xpos by (simp add: round_double_def e p1 p2 Let_def)
  ultimately show ?thesis
    using split by linarith
qed

lemma float_of_int_overflow:
  assumes "2 ^ 1024 \<le> n"
  shows "float_of_int n = Inl (OverflowError, ''int too large to convert to float'')"
proof -
  have "(2::rat) ^ 1024 \<le> of_int n"
    using assms by (metis of_int_le_iff of_int_numeral of_int_power)
  then have "2 ^ 1024 \<le> round_double (of_int n)"
    by (rule round_double_large)
  then have "2 ^ 1024 \<le> \<bar>round_double (of_int n)\<bar>"
    by linarith
  then show ?thesis
    by (simp only: float_of_int_def Let_def if_True)
qed

lemma huge_int: "2 ^ 1024 \<le> huge_score"
proof -
  have "(2::int) ^ 1024 \<le> 2 ^ (3 * 400)"
    by (rule power_increasing) simp_all
  also have "\<dots> = (2 ^ 3) ^ 400"
    by (rule power_mult)
  also have "\<dots> \<le> 10 ^ 400"
    by (rule power_mono) simp_all
  finally show ?thesis
    by (simp only: huge_score_def)
qed


section \<open>Answer Scorer: validation\<close>

lemma validate_evaluation_dict:
  "validate_evaluation parse (JDict d) =
     clamp_scores parse (foldl ensure_field d required_fields) score_fields"
  by (simp add: validate_evaluation_def)

lemma validate_evaluation_not_dict:
  assumes "\<And>d. p \<noteq> JDict d"
  shows "\<exists>e. validate_evaluation parse p = Inl e"
  using assms by (cases p) (auto simp: validate_evaluation_def)


lemma filled_score_field:
  assumes "f \<in> set score_fields"
  shows "dict_get (foldl ensure_field d required_fields) f =
           Some (case dict_get d f of None \<Rightarrow> JInt 5 | Some v \<Rightarrow> v)"
  using assms
  by (auto simp: dict_get_foldl_ensure_field score_fields_required default_value_score_field)

lemma validated_score_field:
  assumes "validate_evaluation parse (JDict d) = Inr result" and "f \<in> set score_fields"
  shows "\<exists>v'. clamp_score parse (case dict_get d f of None \<Rightarrow> JInt 5 | Some v \<Rightarrow> v) = Inr v' \<and>
              dict_get result f = Some v'"
proof -
  from assms obtain v v' where
    "dict_get (foldl ensure_field d required_fields) f = Some v"
    "clamp_score parse v = Inr v'" "dict_get result f = Some v'"
    using clamp_scores_field [OF _ distinct_score_fields] validate_evaluation_dict by metis
  then show ?thesis
    using filled_score_field [OF assms(2)] by simp
qed




lemma validation_error:
  assumes "validate_evaluation parse (JDict d) = Inl e"
  shows "\<exists>f n. f \<in> set score_fields \<and> dict_get d f = Some (JInt n) \<and> float_of_int n = Inl e"
proof -
  have present: "\<And>f. f \<in> set score_fields \<Longrightarrow>
                   dict_get (foldl ensure_field d required_fields) f \<noteq> None"
    by (simp add: filled_score_field)
  from assms obtain f v where
    f: "f \<in> set score_fields" and
    v: "dict_get (foldl ensure_field d required_fields) f = Some v" and
    c: "clamp_score parse v = Inl e"
    using clamp_scores_error [OF _ distinct_score_fields present] validate_evaluation_dict
    by metis
  obtain n where n: "v = JInt n" "float_of_int n = Inl e"
    using clamp_score_error [OF c] by blast
  have "dict_get d f \<noteq> None"
  proof
    assume "dict_get d f = None"
    then have "v = JInt 5"
      using v filled_score_field [OF f, of d] by simp
    then show False
      using n float_of_int_5 by simp
  qed
  then have "dict_get d f = Some v"
    using v filled_score_field [OF f, of d] by auto
  with f n show ?thesis
    by blast
qed



section \<open>Answer Scorer: the evaluation returned\<close>

lemma float_of_int_error:
  assumes "float_of_int n = Inl e"
  shows "e = (OverflowError, ''int too large to convert to float'')"
  using assms by (auto simp: float_of_int_def Let_def split: if_splits)

lemma validation_overflow:
  assumes "f \<in> set score_fields" and "dict_get d f = Some (JInt n)"
    and "float_of_int n = Inl e"
  shows "validate_evaluation parse (JDict d) = Inl e"
proof (cases "validate_evaluation parse (JDict d)")
  case (Inl e')
  then obtain g m where "float_of_int m = Inl e'"
    using validation_error by blast
  then have "e' = e"
    using assms(3) float_of_int_error by blast
  with Inl show ?thesis
    by simp
next
  case (Inr result)
  then obtain v' where "clamp_score parse (JInt n) = Inr v'"
    using validated_score_field [OF Inr assms(1)] assms(2) by auto
  moreover have "clamp_score parse (JInt n) = Inl e"
    using assms(3) float_of_int_error [OF assms(3)] by (simp add: clamp_score_def)
  ultimately show ?thesis
    by simp
qed

lemma evaluate_answer_failure:
  assumes "grader \<lparr>gr_question = question, gr_question_type = question_type,
                    gr_answer = answer, gr_job_title = job_title,
                    gr_job_description = job_description\<rparr> = Failure msg"
  shows "evaluate_answer parse grader question question_type answer job_title job_description
           = fallback_evaluation msg"
  using assms by (simp add: evaluate_answer_def)

lemma evaluate_answer_invalid:
  assumes "grader \<lparr>gr_question = question, gr_question_type = question_type,
                    gr_answer = answer, gr_job_title = job_title,
                    gr_job_description = job_description\<rparr> = Json p"
    and "validate_evaluation parse p = Inl e"
  shows "evaluate_answer parse grader question question_type answer job_title job_description
           = fallback_evaluation (snd e)"
  using assms by (simp add: evaluate_answer_def)






lemma evaluate_answer_fallback:
  assumes "grader \<lparr>gr_question = question, gr_question_type = question_type,
                    gr_answer = answer, gr_job_title = job_title,
                    gr_job_description = job_description\<rparr> = r"
    and "evaluate_answer parse grader question question_type answer job_title job_description
           = E"
    and "(\<exists>msg. r = Failure msg) \<or> (\<exists>p. r = Json p \<and> (\<forall>d. p \<noteq> JDict d)) \<or>
         (\<exists>d f n e. r = Json (JDict d) \<and> f \<in> set score_fields \<and>
            dict_get d f = Some (JInt n) \<and> float_of_int n = Inl e)"
  shows "\<exists>msg. E = fallback_evaluation msg"
proof -
  consider (a) msg where "r = Failure msg"
    | (b) p where "r = Json p" "\<forall>d. p \<noteq> JDict d"
    | (c) d f n e where "r = Json (JDict d)" "f \<in> set score_fields"
        "dict_get d f = Some (JInt n)" "float_of_int n = Inl e"
    using assms(3) by blast
  then show ?thesis
  proof cases
    case a
    then show ?thesis
      using assms(1,2) evaluate_answer_failure by metis
  next
    case b
    then obtain e where "validate_evaluation parse p = Inl e"
      using validate_evaluation_not_dict by blast
    then show ?thesis
      using assms(1,2) b(1) evaluate_answer_invalid by metis
  next
    case c
    then have "validate_evaluation parse (JDict d) = Inl e"
      using validation_overflow by blast
    then show ?thesis
      using assms(1,2) c(1) evaluate_answer_invalid by metis
  qed
qed






text \<open>
  An integer too large for a float in a numeric field: \<open>float\<close> raises \<open>OverflowError\<close>,
  which the handler of the inner \<open>try\<close> (\<open>ValueError\<close>, \<open>TypeError\<close>) does not catch, and
  the evaluation is the one of the outer handler.
\<close>

lemma evaluate_answer_overflow_strengths:
  "dict_get [(''score'', JInt huge_score)] ''strengths'' = None \<and>
   dict_get (evaluate_answer parse_none overflow_grader ''Q'' ''technical'' ''A'' ''Engineer'' ''JD'')
     ''strengths'' = Some (JList [JStr ''Unable to properly evaluate response''])"
proof -
  have f: "''score'' \<in> set score_fields"
    by (simp add: score_fields_def)
  have d: "dict_get [(''score'', JInt huge_score)] ''score'' = Some (JInt huge_score)"
    by (simp add: dict_get_def)
  have "validate_evaluation parse_none (JDict [(''score'', JInt huge_score)]) =
          Inl (OverflowError, ''int too large to convert to float'')"
    using validation_overflow [OF f d float_of_int_overflow [OF huge_int]] .
  then have "evaluate_answer parse_none overflow_grader ''Q'' ''technical'' ''A'' ''Engineer'' ''JD''
               = fallback_evaluation ''int too large to convert to float''"
    by (simp add: evaluate_answer_def overflow_grader_def)
  then show ?thesis
    by (simp add: fallback_evaluation_def dict_get_def)
qed




section \<open>Aggregator: evaluation on interviews\<close>

lemma py_lower_technical: "py_lower ''technical'' = ''technical''"
  by (simp add: py_lower_def lower_char_def)

lemma py_lower_scenario: "py_lower ''scenario'' = ''scenario''"
  by (simp add: py_lower_def lower_char_def)

lemmas aggregate_eval =
  scores_by_type_def track_item_def track_score_def scores_by_type_init_def
  answered_item_def skipped_item_def open_item_def scored_answer_def skipped_answer_def
  answer_score_def py_lower_technical py_lower_scenario Let_def
  category_score_def overall_score_def avg_scores_def average_def add_weighted_def weights_def

lemma scores_by_type_skip_interview:
  "scores_by_type skip_interview =
     [(''technical'', [8, 0]), (''scenario'', []), (''behavioral'', []), (''problem_solving'', [])]"
  by (simp add: skip_interview_def aggregate_eval)

lemma scores_by_type_answered_only:
  "scores_by_type [answered_item ''technical'' 8] =
     [(''technical'', [8]), (''scenario'', []), (''behavioral'', []), (''problem_solving'', [])]"
  by (simp add: aggregate_eval)

lemma scores_by_type_mixed_interview:
  "scores_by_type mixed_interview =
     [(''technical'', [8]), (''scenario'', [0]), (''behavioral'', []), (''problem_solving'', [])]"
  by (simp add: mixed_interview_def aggregate_eval)

lemma category_score_skip_interview: "category_score skip_interview ''technical'' = 4"
  by (simp add: category_score_def scores_by_type_skip_interview avg_scores_def average_def)

lemma overall_score_skip_interview: "overall_score skip_interview = 4"
  by (simp add: overall_score_def scores_by_type_skip_interview avg_scores_def average_def
        add_weighted_def weights_def Let_def)

lemma overall_score_mixed_interview: "overall_score mixed_interview = 32 / 7"
  by (simp add: overall_score_def scores_by_type_mixed_interview avg_scores_def average_def
        add_weighted_def weights_def Let_def)

lemma spec_category_score_skip_interview: "spec_category_score skip_interview ''technical'' = 8"
  by (simp add: spec_category_score_def spec_scores_def spec_scored_def skip_interview_def
        answered_item_def skipped_item_def scored_answer_def skipped_answer_def answer_score_def
        py_lower_technical average_def)

lemma spec_overall_score_mixed_interview: "spec_overall_score mixed_interview = 8"
  by (simp add: spec_overall_score_def spec_category_score_def spec_scores_def spec_scored_def
        mixed_interview_def categories_def weight_of_def weights_def
        answered_item_def skipped_item_def scored_answer_def skipped_answer_def answer_score_def
        py_lower_technical py_lower_scenario average_def Let_def)

lemma completion_rate_partial_interview: "completion_rate partial_interview = 13 / 20"
  by (simp add: completion_rate_def answered_questions_def partial_interview_def
        answered_item_def open_item_def filter_replicate Let_def)


lemma scores_by_type_single_answer:
  "scores_by_type single_answer_interview =
     [(''technical'', [9]), (''scenario'', []), (''behavioral'', []), (''problem_solving'', [])]"
  by (simp add: single_answer_interview_def aggregate_eval)

lemma generate_final_report_calls:
  "length (snd (generate_final_report narrator jt jd rt rs)) = 1"
  by (simp add: generate_final_report_def Let_def split: reply.splits json.splits)

lemma generate_final_report_object:
  assumes "\<And>request. narrator request = Json (JDict a)"
  shows "fst (generate_final_report narrator jt jd rt rs) =
           dict_set (dict_set a ''scores'' (JDict (report_scores rs)))
             ''completion_rate'' (JFloat (Finite (completion_rate rs)))"
  by (simp add: generate_final_report_def Let_def assms)

lemma generate_final_report_failure:
  assumes "\<And>request. narrator request = Failure msg"
  shows "fst (generate_final_report narrator jt jd rt rs) = fallback_report msg"
  by (simp add: generate_final_report_def Let_def assms)

lemma generate_final_report_other:
  assumes "\<And>request. narrator request = Json p" and "\<And>a. p \<noteq> JDict a"
  shows "fst (generate_final_report narrator jt jd rt rs) =
           fallback_report ''object does not support item assignment''"
proof (cases p)
  case (JDict a)
  then show ?thesis
    using assms(2) [of a] by simp
qed (simp_all add: generate_final_report_def Let_def assms(1))

lemma report_keeps_key:
  assumes "\<And>request. narrator request = Json (JDict a)"
    and "k \<noteq> ''scores''" and "k \<noteq> ''completion_rate''"
  shows "dict_get (fst (generate_final_report narrator jt jd rt rs)) k = dict_get a k"
  using assms(2,3) by (simp add: generate_final_report_object [OF assms(1)] dict_get_dict_set)

lemma hire_narrator_reply:
  "hire_narrator request =
     Json (JDict [(''recommendation'', JStr ''Hire''),
                  (''reasoning'', JStr ''Strong answers throughout.'')])"
  by (simp add: hire_narrator_def)

lemma hire_narrator_recommendation:
  "dict_get (fst (generate_final_report hire_narrator jt jd rt rs)) ''recommendation''
     = Some (JStr ''Hire'')"
proof -
  have "dict_get (fst (generate_final_report hire_narrator jt jd rt rs)) ''recommendation''
          = dict_get [(''recommendation'', JStr ''Hire''),
                      (''reasoning'', JStr ''Strong answers throughout.'')] ''recommendation''"
    by (rule report_keeps_key [OF hire_narrator_reply]) simp_all
  then show ?thesis
    by (simp add: dict_get_def)
qed

section \<open>Recommendation Gate\<close>

text \<open>
  C1, as the claim states it, fails: thirteen of twenty questions are answered, a
  completion rate of 0.65, the narrative service proposes \<open>Hire\<close>, and the report
  returned recommends \<open>Hire\<close>.
\<close>

theorem low_completion_hire_accepted:
  "completion_rate partial_interview < 7 / 10 \<and>
   dict_get (fst (generate_final_report hire_narrator ''Engineer'' ''JD'' ''CV'' partial_interview))
     ''recommendation'' = Some (JStr ''Hire'')"
  by (simp add: completion_rate_partial_interview hire_narrator_recommendation)

text \<open>
  C1, amended. \<open>generate_final_report\<close> has no gate on the completion rate: for every
  interview, whatever its completion rate, the recommendation of the report is the one
  that the narrative service returned, and the report carries the completion rate
  computed from the interview. That a rate below 70\% excludes \<open>Hire\<close> is an instruction
  in the prompt, which the service may or may not follow.
\<close>

theorem final_report_keeps_proposed_recommendation:
  assumes "\<And>request. narrator request = Json (JDict assessment)"
  shows "dict_get (fst (generate_final_report narrator jt jd rt rs)) ''recommendation''
           = dict_get assessment ''recommendation'' \<and>
         dict_get (fst (generate_final_report narrator jt jd rt rs)) ''completion_rate''
           = Some (JFloat (Finite (completion_rate rs)))"
proof
  show "dict_get (fst (generate_final_report narrator jt jd rt rs)) ''recommendation''
          = dict_get assessment ''recommendation''"
    by (rule report_keeps_key [OF assms]) simp_all
  show "dict_get (fst (generate_final_report narrator jt jd rt rs)) ''completion_rate''
          = Some (JFloat (Finite (completion_rate rs)))"
    by (simp add: generate_final_report_object [OF assms] dict_get_dict_set)
qed

theorem final_report_keeps_proposed_recommendation_witness:
  "dict_get (fst (generate_final_report hire_narrator ''Engineer'' ''JD'' ''CV'' partial_interview))
     ''completion_rate'' = Some (JFloat (Finite (13 / 20)))"
  using final_report_keeps_proposed_recommendation
    [of hire_narrator _ "''Engineer''" "''JD''" "''CV''" partial_interview, OF hire_narrator_reply]
  by (simp add: completion_rate_partial_interview)

text \<open>
  C2, as the claim states it, fails: the interview has one scored answer, and
  \<open>generate_final_report\<close> calls the narrative service once and returns its \<open>Hire\<close>.
\<close>

theorem single_answer_calls_service:
  "length (filter spec_scored single_answer_interview) = 1 \<and>
   length (snd (generate_final_report hire_narrator ''Engineer'' ''JD'' ''CV''
                  single_answer_interview)) = 1 \<and>
   dict_get (fst (generate_final_report hire_narrator ''Engineer'' ''JD'' ''CV''
                    single_answer_interview)) ''recommendation'' = Some (JStr ''Hire'')"
proof -
  have "length (filter spec_scored single_answer_interview) = 1"
    by (simp add: single_answer_interview_def spec_scored_def answered_item_def scored_answer_def)
  then show ?thesis
    by (simp add: generate_final_report_calls hire_narrator_recommendation)
qed

text \<open>
  C2, amended. \<open>generate_final_report\<close> has no shortcut for interviews with few scored
  answers: for every interview, whatever the number of its scored answers, it makes
  exactly one call to the narrative service, and when the service returns an object,
  recommendation and reasoning of the report are those of the service. That one or two
  answers are insufficient data is an instruction in the prompt of the engine for SAP
  modules only.
\<close>

theorem final_report_always_calls_service:
  "length (snd (generate_final_report narrator jt jd rt rs)) = 1 \<and>
   (\<forall>assessment. (\<forall>request. narrator request = Json (JDict assessment)) \<longrightarrow>
      dict_get (fst (generate_final_report narrator jt jd rt rs)) ''recommendation''
        = dict_get assessment ''recommendation'' \<and>
      dict_get (fst (generate_final_report narrator jt jd rt rs)) ''reasoning''
        = dict_get assessment ''reasoning'')"
proof (intro conjI allI impI)
  show "length (snd (generate_final_report narrator jt jd rt rs)) = 1"
    by (rule generate_final_report_calls)
next
  fix assessment
  assume a: "\<forall>request. narrator request = Json (JDict assessment)"
  then have r: "\<And>request. narrator request = Json (JDict assessment)"
    by simp
  show "dict_get (fst (generate_final_report narrator jt jd rt rs)) ''recommendation''
          = dict_get assessment ''recommendation''"
    by (rule report_keeps_key [OF r]) simp_all
  show "dict_get (fst (generate_final_report narrator jt jd rt rs)) ''reasoning''
          = dict_get assessment ''reasoning''"
    by (rule report_keeps_key [OF r]) simp_all
qed

theorem final_report_always_calls_service_witness:
  "length (snd (generate_final_report hire_narrator ''Engineer'' ''JD'' ''CV''
                  single_answer_interview)) = 1 \<and>
   dict_get (fst (generate_final_report hire_narrator ''Engineer'' ''JD'' ''CV''
                    single_answer_interview)) ''reasoning''
     = Some (JStr ''Strong answers throughout.'')"
proof -
  note t = final_report_always_calls_service
    [of hire_narrator "''Engineer''" "''JD''" "''CV''" single_answer_interview]
  have "dict_get (fst (generate_final_report hire_narrator ''Engineer'' ''JD'' ''CV''
                    single_answer_interview)) ''reasoning''
          = dict_get [(''recommendation'', JStr ''Hire''),
                      (''reasoning'', JStr ''Strong answers throughout.'')] ''reasoning''"
    by (rule t [THEN conjunct2, rule_format, OF hire_narrator_reply, THEN conjunct2])
  then have "dict_get (fst (generate_final_report hire_narrator ''Engineer'' ''JD'' ''CV''
                    single_answer_interview)) ''reasoning''
          = Some (JStr ''Strong answers throughout.'')"
    by (simp add: dict_get_def)
  with t [THEN conjunct1] show ?thesis
    by (intro conjI)
qed


section \<open>Recommendation Gate: a failing narrative call\<close>

lemma failing_narrator_reply: "failing_narrator request = Failure ''Connection error.''"
  by (simp add: failing_narrator_def)

text \<open>
  C8. The claim is right about what the handler should return and the code does not
  return it. The interview has one answer, scored 9, and the call to the narrative
  service raises. The function does not raise and returns the complete report of the
  handler, with the recommendation \<open>Unable to determine\<close>; but the handler has set
  \<open>completion_rate\<close> and all scores to \<open>0\<close> before it reads them (lines 447 to 456),
  so the report holds zeros where the interview gives an overall and a technical
  score of 9 and a completion rate of 1.
\<close>

theorem failed_narrative_report_zeroes:
  "fst (generate_final_report failing_narrator ''Engineer'' ''JD'' ''CV'' single_answer_interview)
     = fallback_report ''Connection error.'' \<and>
   dict_get (fallback_report ''Connection error.'') ''recommendation''
     = Some (JStr ''Unable to determine'') \<and>
   dict_get (fallback_report ''Connection error.'') ''scores''
     = Some (JDict [(''overall'', JInt 0), (''technical'', JInt 0), (''scenario'', JInt 0),
                    (''behavioral'', JInt 0), (''problem_solving'', JInt 0)]) \<and>
   dict_get (fallback_report ''Connection error.'') ''completion_rate'' = Some (JInt 0) \<and>
   overall_score single_answer_interview = 9 \<and>
   category_score single_answer_interview ''technical'' = 9 \<and>
   completion_rate single_answer_interview = 1"
proof -
  have 1: "fst (generate_final_report failing_narrator ''Engineer'' ''JD'' ''CV''
                  single_answer_interview) = fallback_report ''Connection error.''"
    by (rule generate_final_report_failure [OF failing_narrator_reply])
  have 2: "dict_get (fallback_report ''Connection error.'') ''recommendation''
             = Some (JStr ''Unable to determine'')"
    by (simp add: fallback_report_def dict_get_def)
  have 3: "dict_get (fallback_report ''Connection error.'') ''scores''
     = Some (JDict [(''overall'', JInt 0), (''technical'', JInt 0), (''scenario'', JInt 0),
                    (''behavioral'', JInt 0), (''problem_solving'', JInt 0)])"
    by (simp add: fallback_report_def dict_get_def)
  have 4: "dict_get (fallback_report ''Connection error.'') ''completion_rate'' = Some (JInt 0)"
    by (simp add: fallback_report_def dict_get_def)
  have 5: "overall_score single_answer_interview = 9"
    by (simp add: overall_score_def scores_by_type_single_answer avg_scores_def average_def
          add_weighted_def weights_def Let_def)
  have 6: "category_score single_answer_interview ''technical'' = 9"
    by (simp add: category_score_def scores_by_type_single_answer avg_scores_def average_def)
  have 7: "completion_rate single_answer_interview = 1"
    by (simp add: completion_rate_def answered_questions_def single_answer_interview_def
          answered_item_def Let_def)
  from 1 2 3 4 5 6 7 show ?thesis
    by (intro conjI)
qed

section \<open>Aggregator: skipped answers\<close>

text \<open>
  C4. The claim is right, as the page of the report says of a skipped question that
  skipped questions do not contribute to the final score (line 978 of
  \<open>interview_ui.py\<close>), and the code does not do it: \<open>generate_final_report\<close> never reads
  the flag \<open>skipped\<close> and appends the score \<open>0\<close> of a skipped answer to the scores of
  its type. With one technical answer scored 8 and one skipped technical question, the
  technical score is 4, where the mean over the answers that are not skipped is 8; without
  the skipped answer score and overall score are 8, with it they are 4.
\<close>

theorem skipped_answer_lowers_category_score:
  "category_score skip_interview ''technical'' = 4 \<and>
   spec_category_score skip_interview ''technical'' = 8 \<and>
   category_score [answered_item ''technical'' 8] ''technical'' = 8 \<and>
   overall_score skip_interview = 4 \<and>
   overall_score [answered_item ''technical'' 8] = 8"
proof -
  have 3: "category_score [answered_item ''technical'' 8] ''technical'' = 8"
    by (simp add: category_score_def scores_by_type_answered_only avg_scores_def average_def)
  have 5: "overall_score [answered_item ''technical'' 8] = 8"
    by (simp add: overall_score_def scores_by_type_answered_only avg_scores_def average_def
          add_weighted_def weights_def Let_def)
  from category_score_skip_interview spec_category_score_skip_interview 3
    overall_score_skip_interview 5
  show ?thesis
    by (intro conjI)
qed

text \<open>
  C5. The claim is right and the code departs from it on skipped answers, by the defect
  of C4: a category whose only answers are skipped has no scored answer, and the code
  counts it with the score \<open>0\<close> and its full weight. With a technical answer scored 8
  and a skipped scenario question, the scenario category has no scored answer and the
  overall score of the claim is 8; the code computes
  \<open>(8 * 0.4 + 0 * 0.3) / (0.4 + 0.3) = 32 / 7\<close>.
\<close>

theorem skipped_category_dilutes_overall_score:
  "spec_scores mixed_interview ''scenario'' = [] \<and>
   spec_overall_score mixed_interview = 8 \<and>
   overall_score mixed_interview = 32 / 7"
proof -
  have "spec_scores mixed_interview ''scenario'' = []"
    by (simp add: spec_scores_def spec_scored_def mixed_interview_def answered_item_def
          skipped_item_def scored_answer_def skipped_answer_def py_lower_technical
          py_lower_scenario)
  with spec_overall_score_mixed_interview overall_score_mixed_interview show ?thesis
    by (intro conjI)
qed


section \<open>Persistence of answers\<close>

lemma columns_present:
  "list_all (\<lambda>c. c \<in> set (created_answer_columns @ [''is_skipped''])) insert_columns"
  by (simp add: insert_columns_def created_answer_columns_def)

lemma column_missing:
  "\<not> list_all (\<lambda>c. c \<in> set created_answer_columns) insert_columns"
  by (simp add: insert_columns_def created_answer_columns_def)

lemma answer_values_submitted:
  "\<exists>vals. answer_values submitted_answer = Inr (JStr ''An answer.'' # vals)"
  by (simp add: answer_values_def submitted_answer_def get_or_def dict_get_def)

lemma answer_values_skip:
  "\<exists>vals. answer_values skip_record = Inr (JStr ''[Question skipped by interviewer]'' # vals)"
  by (simp add: answer_values_def skip_record_def get_or_def dict_get_def)

lemma save_accepted:
  assumes "insert_accepted db question_id answer_data"
  shows "\<exists>vals. answer_values answer_data = Inr vals \<and>
           save_interview_answer db question_id answer_data =
             (db\<lparr>answer_rows := answer_rows db @
                    [\<lparr>row_id = next_answer_id db, row_question_id = question_id,
                      row_values = vals\<rparr>],
                 next_answer_id := Suc (next_answer_id db)\<rparr>,
              Some (next_answer_id db))"
  using assms
  by (auto simp: insert_accepted_def save_interview_answer_def insert_answer_def
           split: sum.splits)

lemma save_rejected:
  assumes "\<not> insert_accepted db question_id answer_data"
  shows "save_interview_answer db question_id answer_data = (db, None)"
  using assms
  by (auto simp: insert_accepted_def save_interview_answer_def insert_answer_def
           split: sum.splits)

lemma save_on_created_schema:
  assumes "answer_columns db = created_answer_columns"
  shows "save_interview_answer db question_id answer_data = (db, None)"
proof -
  have "\<not> insert_accepted db question_id answer_data"
    using column_missing by (simp add: insert_accepted_def assms)
  then show ?thesis
    by (rule save_rejected)
qed


lemma save_keeps_schema:
  "answer_columns (fst (save_interview_answer db q a)) = answer_columns db \<and>
   question_ids (fst (save_interview_answer db q a)) = question_ids db"
proof (cases "insert_accepted db q a")
  case True
  then show ?thesis
    using save_accepted [OF True] by auto
next
  case False
  then show ?thesis
    by (simp add: save_rejected)
qed

lemma insert_accepted_schema:
  assumes "answer_columns db' = answer_columns db" and "question_ids db' = question_ids db"
  shows "insert_accepted db' q a = insert_accepted db q a"
  by (simp add: insert_accepted_def assms)

lemma insert_accepted_after_save:
  "insert_accepted (fst (save_interview_answer db q' a')) q a = insert_accepted db q a"
  by (rule insert_accepted_schema) (simp_all add: save_keeps_schema)

lemma save_accepted_result:
  assumes "insert_accepted db q a"
  shows "snd (save_interview_answer db q a) = Some (next_answer_id db)"
    and "next_answer_id (fst (save_interview_answer db q a)) = Suc (next_answer_id db)"
    and "length (answers_of (fst (save_interview_answer db q a)) q)
           = Suc (length (answers_of db q))"
  using save_accepted [OF assms] by (auto simp: answers_of_def)

lemma insert_accepted_skip: "insert_accepted one_question_db 1 skip_record"
proof -
  obtain vals where "answer_values skip_record = Inr (JStr ''[Question skipped by interviewer]'' # vals)"
    using answer_values_skip by blast
  then show ?thesis
    using columns_present by (simp add: insert_accepted_def one_question_db_def)
qed

lemma insert_accepted_submitted: "insert_accepted one_question_db 1 submitted_answer"
proof -
  obtain vals where "answer_values submitted_answer = Inr (JStr ''An answer.'' # vals)"
    using answer_values_submitted by blast
  then show ?thesis
    using columns_present by (simp add: insert_accepted_def one_question_db_def)
qed

lemma insert_accepted_after_skip: "insert_accepted after_skip 1 submitted_answer"
  unfolding after_skip_def
  by (simp only: insert_accepted_after_save insert_accepted_submitted)

lemma insert_accepted_after_answer: "insert_accepted after_answer 1 submitted_answer"
  unfolding after_answer_def
  by (simp only: insert_accepted_after_save insert_accepted_after_skip)

lemma answers_of_one_question_db: "answers_of one_question_db 1 = []"
  by (simp add: answers_of_def one_question_db_def)

lemma next_answer_id_one_question_db: "next_answer_id one_question_db = 1"
  by (simp add: one_question_db_def)

text \<open>
  C9, as the claim states it, fails: the only question of the session is skipped, and an
  answer to it is then submitted twice. Each call stores a row and returns its id, and
  the question ends with three stored answers.
\<close>

theorem answered_question_accepts_more_answers:
  "snd (save_interview_answer one_question_db 1 skip_record) = Some 1 \<and>
   length (answers_of after_skip 1) = 1 \<and>
   snd (save_interview_answer after_skip 1 submitted_answer) = Some 2 \<and>
   length (answers_of after_answer 1) = 2 \<and>
   snd (save_interview_answer after_answer 1 submitted_answer) = Some 3 \<and>
   length (answers_of (fst (save_interview_answer after_answer 1 submitted_answer)) 1) = 3"
proof -
  note s = save_accepted_result [OF insert_accepted_skip]
  note a = save_accepted_result [OF insert_accepted_after_skip]
  note b = save_accepted_result [OF insert_accepted_after_answer]
  have 1: "snd (save_interview_answer one_question_db 1 skip_record) = Some 1"
    using s(1) next_answer_id_one_question_db by simp
  have n1: "next_answer_id after_skip = 2"
    using s(2) next_answer_id_one_question_db by (simp add: after_skip_def)
  have 2: "length (answers_of after_skip 1) = 1"
    using s(3) answers_of_one_question_db by (simp add: after_skip_def)
  have 3: "snd (save_interview_answer after_skip 1 submitted_answer) = Some 2"
    using a(1) n1 by simp
  have n2: "next_answer_id after_answer = 3"
    using a(2) n1 by (simp add: after_answer_def)
  have 4: "length (answers_of after_answer 1) = 2"
    using a(3) 2 by (simp add: after_answer_def)
  have 5: "snd (save_interview_answer after_answer 1 submitted_answer) = Some 3"
    using b(1) n2 by simp
  have 6: "length (answers_of (fst (save_interview_answer after_answer 1 submitted_answer)) 1) = 3"
    using b(3) 4 by simp
  from 1 2 3 4 5 6 show ?thesis
    by (intro conjI)
qed

text \<open>
  C9, amended. \<open>save_interview_answer\<close> does not fail with \<open>InvalidStateError\<close> and does
  not look at the answers already stored. Whenever its \<open>INSERT\<close> is accepted (the table
  has the columns named, the question id is in \<open>interview_questions_new\<close>, of whatever
  session, and the values are well-formed) it stores one more answer for the question
  and returns the new id, also when the question already has an answer or a skip; so a
  question can have several stored answers. When the \<open>INSERT\<close> is rejected, nothing is
  stored and \<open>None\<close> is returned. Whether the \<open>INSERT\<close> is accepted does not depend on
  the rows stored.
\<close>

theorem save_interview_answer_ignores_stored_answers:
  "(insert_accepted db question_id answer_data \<longrightarrow>
      snd (save_interview_answer db question_id answer_data) = Some (next_answer_id db) \<and>
      length (answers_of (fst (save_interview_answer db question_id answer_data)) question_id)
        = Suc (length (answers_of db question_id))) \<and>
   (\<not> insert_accepted db question_id answer_data \<longrightarrow>
      save_interview_answer db question_id answer_data = (db, None)) \<and>
   insert_accepted (db\<lparr>answer_rows := rows\<rparr>) question_id answer_data
     = insert_accepted db question_id answer_data"
proof (intro conjI impI)
  assume a: "insert_accepted db question_id answer_data"
  show "snd (save_interview_answer db question_id answer_data) = Some (next_answer_id db)"
    by (rule save_accepted_result(1) [OF a])
  show "length (answers_of (fst (save_interview_answer db question_id answer_data)) question_id)
          = Suc (length (answers_of db question_id))"
    by (rule save_accepted_result(3) [OF a])
next
  assume "\<not> insert_accepted db question_id answer_data"
  then show "save_interview_answer db question_id answer_data = (db, None)"
    by (rule save_rejected)
next
  show "insert_accepted (db\<lparr>answer_rows := rows\<rparr>) question_id answer_data
          = insert_accepted db question_id answer_data"
    by (rule insert_accepted_schema) simp_all
qed

theorem save_interview_answer_ignores_stored_answers_witness:
  "insert_accepted after_skip 1 submitted_answer \<and>
   length (answers_of after_answer 1) = Suc (length (answers_of after_skip 1)) \<and>
   \<not> insert_accepted one_question_db 2 submitted_answer \<and>
   save_interview_answer one_question_db 2 submitted_answer = (one_question_db, None)"
proof -
  note t = save_interview_answer_ignores_stored_answers [of after_skip 1 submitted_answer]
  note u = save_interview_answer_ignores_stored_answers [of one_question_db 2 submitted_answer]
  have n: "\<not> insert_accepted one_question_db 2 submitted_answer"
    by (simp add: insert_accepted_def one_question_db_def)
  have 2: "length (answers_of after_answer 1) = Suc (length (answers_of after_skip 1))"
    unfolding after_answer_def
    by (rule t [THEN conjunct1, rule_format, OF insert_accepted_after_skip, THEN conjunct2])
  have 4: "save_interview_answer one_question_db 2 submitted_answer = (one_question_db, None)"
    by (rule u [THEN conjunct2, THEN conjunct1, rule_format, OF n])
  from insert_accepted_after_skip 2 n 4 show ?thesis
    by (intro conjI)
qed


end
